theory Spec2Isabelle
  imports Main "HOL-Library.Sublist"
begin

section \<open>JSON values and the Python operations the server applies to them\<close>

text \<open>
  Every value the server handles is a parsed JSON body (\<open>response.json()\<close>) or a
  parameter of a handler: dictionaries typed \<open>Dict[str, Any]\<close>. A dictionary is an
  association list in insertion order, as a Python \<open>dict\<close> is. JSON numbers are
  integers here (document, tag and correspondent identifiers); floating point numbers
  are outside the model. Strings are ASCII text.
\<close>

datatype json =
    JNull
  | JBool bool
  | JInt int
  | JStr string
  | JList "json list"
  | JObj "(string \<times> json) list"

type_synonym py_dict = "(string \<times> json) list"

text \<open>
  The exceptions that can occur. \<open>RequestException\<close> (here: any failure to get a
  response), \<open>HTTPError\<close> (with the status code that \<open>raise_for_status\<close> rejected) and
  \<open>JSONDecodeError\<close> are the ones of the \<open>requests\<close> library; all three are caught by
  \<open>except RequestException\<close> (\<open>JSONDecodeError\<close> since \<open>requests\<close> 2.27).
  \<open>HTTPException\<close> is FastAPI's, with its \<open>status_code\<close> and \<open>detail\<close>; the others
  are raised by the interpreter when an operation meets a value of the wrong type.
\<close>

datatype py_exception =
    RequestException string
  | HTTPError int
  | JSONDecodeError
  | HTTPException int string
  | TypeError
  | AttributeError
  | KeyError string

fun is_RequestException :: "py_exception \<Rightarrow> bool" where
  "is_RequestException (RequestException msg) = True"
| "is_RequestException (HTTPError status) = True"
| "is_RequestException JSONDecodeError = True"
| "is_RequestException e = False"

definition bind_exc :: "py_exception + 'a \<Rightarrow> ('a \<Rightarrow> py_exception + 'b) \<Rightarrow> py_exception + 'b" where
  "bind_exc r f = (case r of Inl e \<Rightarrow> Inl e | Inr v \<Rightarrow> f v)"

text \<open>Python's \<open>==\<close> on JSON values: \<open>True == 1\<close> and \<open>False == 0\<close>, and two
  dictionaries are equal when they have the same keys with equal values, in any order.\<close>

fun py_eq :: "json \<Rightarrow> json \<Rightarrow> bool" where
  "py_eq JNull JNull = True"
| "py_eq (JBool a) (JBool b) = (a = b)"
| "py_eq (JBool a) (JInt n) = (n = (if a then 1 else 0))"
| "py_eq (JInt n) (JBool a) = (n = (if a then 1 else 0))"
| "py_eq (JInt m) (JInt n) = (m = n)"
| "py_eq (JStr s) (JStr t) = (s = t)"
| "py_eq (JList xs) (JList ys) = list_all2 py_eq xs ys"
| "py_eq (JObj a) (JObj b) =
     (length a = length b \<and>
      list_all (\<lambda>(k, v). case map_of b k of None \<Rightarrow> False | Some w \<Rightarrow> py_eq v w) a)"
| "py_eq _ _ = False"

text \<open>Truthiness, as \<open>if query:\<close> tests it.\<close>

fun py_truthy :: "json \<Rightarrow> bool" where
  "py_truthy JNull = False"
| "py_truthy (JBool b) = b"
| "py_truthy (JInt n) = (n \<noteq> 0)"
| "py_truthy (JStr s) = (s \<noteq> [])"
| "py_truthy (JList xs) = (xs \<noteq> [])"
| "py_truthy (JObj d) = (d \<noteq> [])"

fun py_hashable :: "json \<Rightarrow> bool" where
  "py_hashable (JList xs) = False"
| "py_hashable (JObj d) = False"
| "py_hashable v = True"

subsection \<open>Strings\<close>

definition lower_char :: "char \<Rightarrow> char" where
  "lower_char c =
     (case map_of (zip ''ABCDEFGHIJKLMNOPQRSTUVWXYZ'' ''abcdefghijklmnopqrstuvwxyz'') c of
        Some l \<Rightarrow> l
      | None \<Rightarrow> c)"

text \<open>\<open>s.lower()\<close>\<close>

definition str_lower :: "string \<Rightarrow> string" where
  "str_lower s = map lower_char s"

text \<open>\<open>t in s\<close> on two strings: \<open>t\<close> occurs in \<open>s\<close> as a contiguous run of characters.\<close>

fun str_contains :: "string \<Rightarrow> string \<Rightarrow> bool" where
  "str_contains [] t = (t = [])"
| "str_contains (c # s) t = (prefix t (c # s) \<or> str_contains s t)"

subsection \<open>Dictionaries\<close>

text \<open>\<open>d[k] = v\<close>: an existing key keeps its position, a new key goes last.\<close>

fun dict_set :: "py_dict \<Rightarrow> string \<Rightarrow> json \<Rightarrow> py_dict" where
  "dict_set [] k v = [(k, v)]"
| "dict_set ((k', v') # d) k v = (if k' = k then (k, v) # d else (k', v') # dict_set d k v)"

text \<open>\<open>{**a, **b}\<close>: the items of \<open>a\<close>, then each item of \<open>b\<close> stored in turn.\<close>

definition dict_merge :: "py_dict \<Rightarrow> py_dict \<Rightarrow> py_dict" where
  "dict_merge a b = fold (\<lambda>(k, v) d. dict_set d k v) b a"

text \<open>\<open>{**x, **b}\<close> where \<open>x\<close> is any value: only a mapping can be unpacked.\<close>

fun py_dict_unpack_merge :: "json \<Rightarrow> py_dict \<Rightarrow> py_exception + json" where
  "py_dict_unpack_merge (JObj a) b = Inr (JObj (dict_merge a b))"
| "py_dict_unpack_merge x b = Inl TypeError"

text \<open>\<open>x.get(k, default)\<close>: only a dictionary has \<open>get\<close>.\<close>

fun py_get :: "json \<Rightarrow> string \<Rightarrow> json \<Rightarrow> py_exception + json" where
  "py_get (JObj d) k dflt = Inr (case map_of d k of None \<Rightarrow> dflt | Some v \<Rightarrow> v)"
| "py_get x k dflt = Inl AttributeError"

text \<open>\<open>x[k]\<close> with a string key.\<close>

fun py_getitem :: "json \<Rightarrow> string \<Rightarrow> py_exception + json" where
  "py_getitem (JObj d) k = (case map_of d k of None \<Rightarrow> Inl (KeyError k) | Some v \<Rightarrow> Inr v)"
| "py_getitem x k = Inl TypeError"

subsection \<open>Lists and iteration\<close>

text \<open>\<open>for x in v\<close>: a list yields its elements, a string its characters, a dictionary
  its keys; nothing else can be iterated.\<close>

fun py_iter :: "json \<Rightarrow> py_exception + json list" where
  "py_iter (JList xs) = Inr xs"
| "py_iter (JStr s) = Inr (map (\<lambda>c. JStr [c]) s)"
| "py_iter (JObj d) = Inr (map (\<lambda>(k, v). JStr k) d)"
| "py_iter x = Inl TypeError"

text \<open>\<open>x in xs\<close> on a list.\<close>

definition list_contains :: "json list \<Rightarrow> json \<Rightarrow> bool" where
  "list_contains xs x = list_ex (\<lambda>el. py_eq el x) xs"

text \<open>\<open>x in v\<close> for any container \<open>v\<close>.\<close>

fun py_contains :: "json \<Rightarrow> json \<Rightarrow> py_exception + bool" where
  "py_contains (JList xs) x = Inr (list_contains xs x)"
| "py_contains (JStr s) x = (case x of JStr t \<Rightarrow> Inr (str_contains s t) | _ \<Rightarrow> Inl TypeError)"
| "py_contains (JObj d) x =
     (if py_hashable x then Inr (list_ex (\<lambda>(k, v). py_eq (JStr k) x) d) else Inl TypeError)"
| "py_contains v x = Inl TypeError"

text \<open>\<open>v.append(x)\<close>: only a list has \<open>append\<close>.\<close>

fun py_append :: "json \<Rightarrow> json \<Rightarrow> py_exception + json" where
  "py_append (JList xs) x = Inr (JList (xs @ [x]))"
| "py_append v x = Inl AttributeError"

text \<open>\<open>v.lower()\<close>: only a string has \<open>lower\<close>.\<close>

fun py_lower :: "json \<Rightarrow> py_exception + string" where
  "py_lower (JStr s) = Inr (str_lower s)"
| "py_lower v = Inl AttributeError"

text \<open>\<open>v + ys\<close> where \<open>ys\<close> is a list: defined for a list \<open>v\<close> only.\<close>

fun py_add_list :: "json \<Rightarrow> json list \<Rightarrow> py_exception + json list" where
  "py_add_list (JList xs) ys = Inr (xs @ ys)"
| "py_add_list v ys = Inl TypeError"

text \<open>
  \<open>set(xs)\<close>: every element must be hashable; an element equal (\<open>==\<close>) to one
  already in the set is not added. The elements are kept here in the order of their
  first occurrence; the order in which Python iterates the set is not defined, see
  \<open>set_order\<close> below.
\<close>

definition py_set_add :: "json list \<Rightarrow> json \<Rightarrow> json list" where
  "py_set_add acc x = (if list_contains acc x then acc else acc @ [x])"

definition py_set :: "json list \<Rightarrow> py_exception + json list" where
  "py_set xs = (if list_all py_hashable xs then Inr (fold (\<lambda>x acc. py_set_add acc x) xs []) else Inl TypeError)"

text \<open>\<open>xs[:n]\<close>: a negative \<open>n\<close> counts from the end.\<close>

definition py_slice_to :: "'a list \<Rightarrow> int \<Rightarrow> 'a list" where
  "py_slice_to xs n = (if 0 \<le> n then take (nat n) xs else take (nat (int (length xs) + n)) xs)"

text \<open>An optional list parameter (\<open>Optional[List[int]] = None\<close>) read as a list.\<close>

fun opt_list :: "'a list option \<Rightarrow> 'a list" where
  "opt_list None = []"
| "opt_list (Some xs) = xs"

section \<open>The upstream services\<close>

datatype http_method = GET | PUT | POST

text \<open>The URLs the server builds from its two configured base URLs.\<close>

datatype endpoint =
    PaperlessDocuments
  | PaperlessDocument int
  | PaperlessTags
  | PaperlessCorrespondents
  | PaperlessDocumentTypes
  | N8nWorkflows
  | N8nWorkflowTrigger string

text \<open>\<open>get_paperless_headers()\<close> and \<open>get_n8n_headers()\<close>: static, built from the
  configured tokens.\<close>

datatype auth_headers = PaperlessHeaders | N8nHeaders

record request =
  req_method :: http_method
  req_url :: endpoint
  req_headers :: auth_headers
  req_params :: py_dict
  req_json :: "json option"

text \<open>The three kinds of request the server sends: \<open>requests.get(url, headers=..., params=...)\<close>,
  \<open>requests.put(url, headers=..., json=...)\<close> and \<open>requests.post(url, headers=..., json=...)\<close>.\<close>

definition http_get :: "endpoint \<Rightarrow> auth_headers \<Rightarrow> py_dict \<Rightarrow> request" where
  "http_get url headers params =
     \<lparr>req_method = GET, req_url = url, req_headers = headers, req_params = params, req_json = None\<rparr>"

definition http_put :: "endpoint \<Rightarrow> auth_headers \<Rightarrow> json \<Rightarrow> request" where
  "http_put url headers data =
     \<lparr>req_method = PUT, req_url = url, req_headers = headers, req_params = [], req_json = Some data\<rparr>"

definition http_post :: "endpoint \<Rightarrow> auth_headers \<Rightarrow> json \<Rightarrow> request" where
  "http_post url headers data =
     \<lparr>req_method = POST, req_url = url, req_headers = headers, req_params = [], req_json = Some data\<rparr>"

text \<open>
  What comes back from one HTTP call: no response at all (a transport failure, with the
  text of the exception \<open>requests\<close> raises), or the final response, after any redirect
  is followed, with its status code and its body (\<open>None\<close> when the body is not JSON).
\<close>

datatype upstream_reply = NoReply string | Reply int "json option"

datatype response = Response (status_code: int) (body: "json option")

text \<open>
  Everything outside the server. \<open>upstream\<close> answers the last request of the history
  of all requests sent so far, so the services may answer the same request differently
  at different times. \<open>exc_text\<close> is Python's \<open>str(e)\<close>; \<open>set_order\<close> is the order
  in which Python iterates a set with the given elements; \<open>now_isoformat\<close> is the clock.
\<close>

record environment =
  upstream :: "request list \<Rightarrow> upstream_reply"
  exc_text :: "py_exception \<Rightarrow> string"
  set_order :: "json list \<Rightarrow> json list"
  now_isoformat :: "request list \<Rightarrow> string"

text \<open>\<open>requests.get\<close>, \<open>requests.put\<close>, \<open>requests.post\<close>: the request is logged and
  answered.\<close>

definition requests_send ::
  "environment \<Rightarrow> request \<Rightarrow> request list \<Rightarrow> (py_exception + response) \<times> request list" where
  "requests_send env req log =
     (let log' = log @ [req] in
      (case upstream env log' of
         NoReply msg \<Rightarrow> Inl (RequestException msg)
       | Reply status b \<Rightarrow> Inr (Response status b),
       log'))"

text \<open>\<open>response.raise_for_status()\<close> raises for the 4xx and 5xx status codes.\<close>

definition raise_for_status :: "response \<Rightarrow> py_exception + unit" where
  "raise_for_status r =
     (if 400 \<le> status_code r \<and> status_code r < 600 then Inl (HTTPError (status_code r)) else Inr ())"

definition response_json :: "response \<Rightarrow> py_exception + json" where
  "response_json r = (case body r of None \<Rightarrow> Inl JSONDecodeError | Some j \<Rightarrow> Inr j)"

text \<open>
  \<open>except RequestException as e: raise HTTPException(status_code=500, detail=f"<what>{str(e)}")\<close>:
  any other exception passes through.
\<close>

definition except_RequestException ::
  "environment \<Rightarrow> string \<Rightarrow> py_exception + 'a \<Rightarrow> py_exception + 'a" where
  "except_RequestException env what r =
     (case r of
        Inl e \<Rightarrow> if is_RequestException e then Inl (HTTPException 500 (what @ exc_text env e)) else Inl e
      | Inr v \<Rightarrow> Inr v)"

section \<open>Upstream clients\<close>

text \<open>The query parameters of the document listing: \<open>page_size\<close> always, each filter
  only when its value is truthy.\<close>

definition documents_params ::
  "json \<Rightarrow> json \<Rightarrow> json \<Rightarrow> json \<Rightarrow> json \<Rightarrow> json \<Rightarrow> int \<Rightarrow> py_dict" where
  "documents_params query tag_id correspondent_id document_type_id created_after created_before limit =
     (let params0 = [(''page_size'', JInt limit)];
          params1 = (if py_truthy query then dict_set params0 ''query'' query else params0);
          params2 = (if py_truthy tag_id then dict_set params1 ''tags__id'' tag_id else params1);
          params3 = (if py_truthy correspondent_id
                     then dict_set params2 ''correspondent__id'' correspondent_id else params2);
          params4 = (if py_truthy document_type_id
                     then dict_set params3 ''document_type__id'' document_type_id else params3);
          params5 = (if py_truthy created_after
                     then dict_set params4 ''created__gte'' created_after else params4)
      in if py_truthy created_before
         then dict_set params5 ''created__lte'' created_before else params5)"

definition fetch_paperless_documents ::
  "environment \<Rightarrow> json \<Rightarrow> json \<Rightarrow> json \<Rightarrow> json \<Rightarrow> json \<Rightarrow> json \<Rightarrow> int \<Rightarrow> request list
     \<Rightarrow> (py_exception + json) \<times> request list" where
  "fetch_paperless_documents env query tag_id correspondent_id document_type_id
       created_after created_before limit log =
     (let params = documents_params query tag_id correspondent_id document_type_id
                     created_after created_before limit;
          (r, log') = requests_send env (http_get PaperlessDocuments PaperlessHeaders params) log
      in (except_RequestException env ''Error fetching documents: ''
            (bind_exc r (\<lambda>response.
             bind_exc (raise_for_status response) (\<lambda>_.
             bind_exc (response_json response) (\<lambda>data.
             py_get data ''results'' (JList []))))),
          log'))"

definition fetch_paperless_document ::
  "environment \<Rightarrow> int \<Rightarrow> request list \<Rightarrow> (py_exception + json) \<times> request list" where
  "fetch_paperless_document env document_id log =
     (let (r, log') = requests_send env
             (http_get (PaperlessDocument document_id) PaperlessHeaders []) log
      in (except_RequestException env ''Error fetching document: ''
            (bind_exc r (\<lambda>response.
             bind_exc (raise_for_status response) (\<lambda>_.
             response_json response))),
          log'))"

definition fetch_paperless_tags ::
  "environment \<Rightarrow> request list \<Rightarrow> (py_exception + json) \<times> request list" where
  "fetch_paperless_tags env log =
     (let (r, log') = requests_send env
             (http_get PaperlessTags PaperlessHeaders []) log
      in (except_RequestException env ''Error fetching tags: ''
            (bind_exc r (\<lambda>response.
             bind_exc (raise_for_status response) (\<lambda>_.
             bind_exc (response_json response) (\<lambda>data.
             py_get data ''results'' (JList []))))),
          log'))"

definition fetch_paperless_correspondents ::
  "environment \<Rightarrow> request list \<Rightarrow> (py_exception + json) \<times> request list" where
  "fetch_paperless_correspondents env log =
     (let (r, log') = requests_send env
             (http_get PaperlessCorrespondents PaperlessHeaders []) log
      in (except_RequestException env ''Error fetching correspondents: ''
            (bind_exc r (\<lambda>response.
             bind_exc (raise_for_status response) (\<lambda>_.
             bind_exc (response_json response) (\<lambda>data.
             py_get data ''results'' (JList []))))),
          log'))"

definition fetch_paperless_document_types ::
  "environment \<Rightarrow> request list \<Rightarrow> (py_exception + json) \<times> request list" where
  "fetch_paperless_document_types env log =
     (let (r, log') = requests_send env
             (http_get PaperlessDocumentTypes PaperlessHeaders []) log
      in (except_RequestException env ''Error fetching document types: ''
            (bind_exc r (\<lambda>response.
             bind_exc (raise_for_status response) (\<lambda>_.
             bind_exc (response_json response) (\<lambda>data.
             py_get data ''results'' (JList []))))),
          log'))"

definition trigger_n8n_workflow ::
  "environment \<Rightarrow> string \<Rightarrow> py_dict \<Rightarrow> request list \<Rightarrow> (py_exception + json) \<times> request list" where
  "trigger_n8n_workflow env workflow_id data log =
     (let (r, log') = requests_send env
             (http_post (N8nWorkflowTrigger workflow_id) N8nHeaders (JObj data)) log
      in (except_RequestException env ''Error triggering workflow: ''
            (bind_exc r (\<lambda>response.
             bind_exc (raise_for_status response) (\<lambda>_.
             response_json response))),
          log'))"

definition fetch_n8n_workflows ::
  "environment \<Rightarrow> request list \<Rightarrow> (py_exception + json) \<times> request list" where
  "fetch_n8n_workflows env log =
     (let (r, log') = requests_send env
             (http_get N8nWorkflows N8nHeaders []) log
      in (except_RequestException env ''Error fetching workflows: ''
            (bind_exc r (\<lambda>response.
             bind_exc (raise_for_status response) (\<lambda>_.
             response_json response))),
          log'))"

text \<open>
  The read-modify-write update. The fetch of the current document is inside the
  \<open>try\<close>; the \<open>HTTPException\<close> it raises is not a \<open>RequestException\<close> and passes
  through the handler unchanged, as does the \<open>TypeError\<close> of unpacking a body that is
  not a dictionary.
\<close>

definition update_paperless_document ::
  "environment \<Rightarrow> int \<Rightarrow> py_dict \<Rightarrow> request list \<Rightarrow> (py_exception + json) \<times> request list" where
  "update_paperless_document env document_id update_data log =
     (case fetch_paperless_document env document_id log of
        (Inl e, log1) \<Rightarrow> (except_RequestException env ''Error updating document: '' (Inl e), log1)
      | (Inr current_doc, log1) \<Rightarrow>
          (case py_dict_unpack_merge current_doc update_data of
             Inl e \<Rightarrow> (except_RequestException env ''Error updating document: '' (Inl e), log1)
           | Inr updated_doc \<Rightarrow>
               (let (r, log2) = requests_send env
                      (http_put (PaperlessDocument document_id) PaperlessHeaders updated_doc) log1
                in (except_RequestException env ''Error updating document: ''
                      (bind_exc r (\<lambda>response.
                       bind_exc (raise_for_status response) (\<lambda>_.
                       response_json response))),
                    log2))))"

section \<open>Handlers\<close>

text \<open>
  Every handler is one \<open>try\<close> block with \<open>except Exception as e: return {...}\<close>: whatever
  the block raises becomes the dictionary the handler returns. (The calls of the logger
  have no effect on the result and are left out.) The handlers keep the type of a
  computation that may raise, so that "the handler never raises" is a statement to prove.
\<close>

definition except_Exception :: "py_exception + 'a \<Rightarrow> (py_exception \<Rightarrow> 'a) \<Rightarrow> py_exception + 'a" where
  "except_Exception r handler = (case r of Inl e \<Rightarrow> Inr (handler e) | Inr v \<Rightarrow> Inr v)"

subsection \<open>Resources\<close>

definition get_documents ::
  "environment \<Rightarrow> json \<Rightarrow> json \<Rightarrow> json \<Rightarrow> json \<Rightarrow> json \<Rightarrow> json \<Rightarrow> int \<Rightarrow> request list
     \<Rightarrow> (py_exception + py_dict) \<times> request list" where
  "get_documents env query tag_id correspondent_id document_type_id created_after created_before
       limit log =
     (let (r, log') = fetch_paperless_documents env query tag_id correspondent_id document_type_id
                        created_after created_before limit log
      in (except_Exception (bind_exc r (\<lambda>documents. Inr [(''documents'', documents)]))
            (\<lambda>e. [(''error'', JStr (exc_text env e)), (''documents'', JList [])]),
          log'))"

definition get_document ::
  "environment \<Rightarrow> int \<Rightarrow> request list \<Rightarrow> (py_exception + py_dict) \<times> request list" where
  "get_document env document_id log =
     (let (r, log') = fetch_paperless_document env document_id log
      in (except_Exception (bind_exc r (\<lambda>document. Inr [(''document'', document)]))
            (\<lambda>e. [(''error'', JStr (exc_text env e)), (''document'', JNull)]),
          log'))"

definition get_tags ::
  "environment \<Rightarrow> request list \<Rightarrow> (py_exception + py_dict) \<times> request list" where
  "get_tags env log =
     (let (r, log') = fetch_paperless_tags env log
      in (except_Exception (bind_exc r (\<lambda>tags. Inr [(''tags'', tags)]))
            (\<lambda>e. [(''error'', JStr (exc_text env e)), (''tags'', JList [])]),
          log'))"

definition get_correspondents ::
  "environment \<Rightarrow> request list \<Rightarrow> (py_exception + py_dict) \<times> request list" where
  "get_correspondents env log =
     (let (r, log') = fetch_paperless_correspondents env log
      in (except_Exception (bind_exc r (\<lambda>correspondents. Inr [(''correspondents'', correspondents)]))
            (\<lambda>e. [(''error'', JStr (exc_text env e)), (''correspondents'', JList [])]),
          log'))"

definition get_document_types ::
  "environment \<Rightarrow> request list \<Rightarrow> (py_exception + py_dict) \<times> request list" where
  "get_document_types env log =
     (let (r, log') = fetch_paperless_document_types env log
      in (except_Exception (bind_exc r (\<lambda>document_types. Inr [(''document_types'', document_types)]))
            (\<lambda>e. [(''error'', JStr (exc_text env e)), (''document_types'', JList [])]),
          log'))"

definition get_workflows ::
  "environment \<Rightarrow> request list \<Rightarrow> (py_exception + py_dict) \<times> request list" where
  "get_workflows env log =
     (let (r, log') = fetch_n8n_workflows env log
      in (except_Exception (bind_exc r (\<lambda>workflows. Inr [(''workflows'', workflows)]))
            (\<lambda>e. [(''error'', JStr (exc_text env e)), (''workflows'', JList [])]),
          log'))"

subsection \<open>Tool: trigger a workflow\<close>

definition tool_trigger_workflow_try ::
  "environment \<Rightarrow> string \<Rightarrow> int \<Rightarrow> py_dict option \<Rightarrow> request list
     \<Rightarrow> (py_exception + py_dict) \<times> request list" where
  "tool_trigger_workflow_try env workflow_id document_id additional_data log =
     (case fetch_paperless_document env document_id log of
        (Inl e, log1) \<Rightarrow> (Inl e, log1)
      | (Inr document, log1) \<Rightarrow>
          (let payload0 = [(''document'', document), (''timestamp'', JStr (now_isoformat env log1))];
               payload = (if opt_list additional_data \<noteq> []
                          then dict_set payload0 ''additional_data'' (JObj (opt_list additional_data))
                          else payload0)
           in case trigger_n8n_workflow env workflow_id payload log1 of
                (Inl e, log2) \<Rightarrow> (Inl e, log2)
              | (Inr result, log2) \<Rightarrow>
                  (Inr [(''success'', JBool True), (''workflow_id'', JStr workflow_id),
                        (''document_id'', JInt document_id), (''result'', result)],
                   log2)))"

definition tool_trigger_workflow ::
  "environment \<Rightarrow> string \<Rightarrow> int \<Rightarrow> py_dict option \<Rightarrow> request list
     \<Rightarrow> (py_exception + py_dict) \<times> request list" where
  "tool_trigger_workflow env workflow_id document_id additional_data log =
     (let (r, log') = tool_trigger_workflow_try env workflow_id document_id additional_data log
      in (except_Exception r
            (\<lambda>e. [(''success'', JBool False), (''error'', JStr (exc_text env e)),
                  (''workflow_id'', JStr workflow_id), (''document_id'', JInt document_id)]),
          log'))"

subsection \<open>Tool: update the tags of a document\<close>

text \<open>\<open>for tag_id in add_tags: if tag_id not in current_tags: current_tags.append(tag_id)\<close>\<close>

fun add_tags_loop :: "int list \<Rightarrow> json \<Rightarrow> py_exception + json" where
  "add_tags_loop [] current_tags = Inr current_tags"
| "add_tags_loop (tag_id # rest) current_tags =
     (case py_contains current_tags (JInt tag_id) of
        Inl e \<Rightarrow> Inl e
      | Inr present \<Rightarrow>
          if present then add_tags_loop rest current_tags
          else (case py_append current_tags (JInt tag_id) of
                  Inl e \<Rightarrow> Inl e
                | Inr current_tags' \<Rightarrow> add_tags_loop rest current_tags'))"

text \<open>\<open>[tag_id for tag_id in current_tags if tag_id not in remove_tags]\<close>\<close>

definition remove_tags_filter :: "int list \<Rightarrow> json \<Rightarrow> py_exception + json" where
  "remove_tags_filter remove_tags current_tags =
     bind_exc (py_iter current_tags) (\<lambda>xs.
       Inr (JList (filter (\<lambda>tag_id. \<not> list_contains (map JInt remove_tags) tag_id) xs)))"

text \<open>The tag list the tool writes back, from the fetched document and the two
  optional parameters.\<close>

definition new_tag_list :: "json \<Rightarrow> int list option \<Rightarrow> int list option \<Rightarrow> py_exception + json" where
  "new_tag_list document add_tags remove_tags =
     bind_exc (py_get document ''tags'' (JList [])) (\<lambda>current_tags.
     bind_exc (if opt_list add_tags \<noteq> [] then add_tags_loop (opt_list add_tags) current_tags
               else Inr current_tags) (\<lambda>current_tags.
     if opt_list remove_tags \<noteq> [] then remove_tags_filter (opt_list remove_tags) current_tags
     else Inr current_tags))"

definition tool_update_document_tags_try ::
  "environment \<Rightarrow> int \<Rightarrow> int list option \<Rightarrow> int list option \<Rightarrow> request list
     \<Rightarrow> (py_exception + py_dict) \<times> request list" where
  "tool_update_document_tags_try env document_id add_tags remove_tags log =
     (case fetch_paperless_document env document_id log of
        (Inl e, log1) \<Rightarrow> (Inl e, log1)
      | (Inr document, log1) \<Rightarrow>
          (case new_tag_list document add_tags remove_tags of
             Inl e \<Rightarrow> (Inl e, log1)
           | Inr current_tags \<Rightarrow>
               (case update_paperless_document env document_id [(''tags'', current_tags)] log1 of
                  (Inl e, log2) \<Rightarrow> (Inl e, log2)
                | (Inr updated_doc, log2) \<Rightarrow>
                    (bind_exc (py_get updated_doc ''tags'' (JList [])) (\<lambda>updated_tags.
                       Inr [(''success'', JBool True), (''document_id'', JInt document_id),
                            (''updated_tags'', updated_tags),
                            (''message'', JStr ''Tags updated successfully'')]),
                     log2))))"

definition tool_update_document_tags ::
  "environment \<Rightarrow> int \<Rightarrow> int list option \<Rightarrow> int list option \<Rightarrow> request list
     \<Rightarrow> (py_exception + py_dict) \<times> request list" where
  "tool_update_document_tags env document_id add_tags remove_tags log =
     (let (r, log') = tool_update_document_tags_try env document_id add_tags remove_tags log
      in (except_Exception r
            (\<lambda>e. [(''success'', JBool False), (''error'', JStr (exc_text env e)),
                  (''document_id'', JInt document_id)]),
          log'))"

subsection \<open>Tool: analyze a document and suggest tags\<close>

text \<open>\<open>{tag["name"].lower(): tag["id"] for tag in all_tags}\<close>: for each tag the key is
  evaluated, then the value, then the item is stored.\<close>

fun build_tag_mapping :: "json list \<Rightarrow> py_dict \<Rightarrow> py_exception + py_dict" where
  "build_tag_mapping [] tag_mapping = Inr tag_mapping"
| "build_tag_mapping (tag # rest) tag_mapping =
     (case py_getitem tag ''name'' of
        Inl e \<Rightarrow> Inl e
      | Inr name \<Rightarrow>
          (case py_lower name of
             Inl e \<Rightarrow> Inl e
           | Inr tag_name \<Rightarrow>
               (case py_getitem tag ''id'' of
                  Inl e \<Rightarrow> Inl e
                | Inr tag_id \<Rightarrow> build_tag_mapping rest (dict_set tag_mapping tag_name tag_id))))"

text \<open>
  \<open>for tag_name, tag_id in tag_mapping.items():
      if tag_name in document_title.lower() or tag_name in document_content.lower():
          suggested_tag_ids.append(tag_id)\<close>.
  The title is lower-cased in every iteration, the content only when the title does not
  match (\<open>or\<close> is short-circuit).
\<close>

fun suggest_loop :: "py_dict \<Rightarrow> json \<Rightarrow> json \<Rightarrow> json list \<Rightarrow> py_exception + json list" where
  "suggest_loop [] document_title document_content suggested_tag_ids = Inr suggested_tag_ids"
| "suggest_loop ((tag_name, tag_id) # rest) document_title document_content suggested_tag_ids =
     (case py_lower document_title of
        Inl e \<Rightarrow> Inl e
      | Inr title \<Rightarrow>
          if str_contains title tag_name
          then suggest_loop rest document_title document_content (suggested_tag_ids @ [tag_id])
          else (case py_lower document_content of
                  Inl e \<Rightarrow> Inl e
                | Inr content \<Rightarrow>
                    if str_contains content tag_name
                    then suggest_loop rest document_title document_content (suggested_tag_ids @ [tag_id])
                    else suggest_loop rest document_title document_content suggested_tag_ids))"

definition suggest_tag_ids :: "json \<Rightarrow> json \<Rightarrow> json \<Rightarrow> py_exception + json list" where
  "suggest_tag_ids all_tags document_title document_content =
     bind_exc (py_iter all_tags) (\<lambda>tags.
     bind_exc (build_tag_mapping tags []) (\<lambda>tag_mapping.
     suggest_loop tag_mapping document_title document_content []))"

text \<open>\<open>[tag["name"] for tag in all_tags if tag["id"] in suggested_tag_ids]\<close>\<close>

fun suggested_names_loop :: "json list \<Rightarrow> json list \<Rightarrow> py_exception + json list" where
  "suggested_names_loop [] suggested_tag_ids = Inr []"
| "suggested_names_loop (tag # rest) suggested_tag_ids =
     (case py_getitem tag ''id'' of
        Inl e \<Rightarrow> Inl e
      | Inr tag_id \<Rightarrow>
          if list_contains suggested_tag_ids tag_id
          then (case py_getitem tag ''name'' of
                  Inl e \<Rightarrow> Inl e
                | Inr name \<Rightarrow>
                    (case suggested_names_loop rest suggested_tag_ids of
                       Inl e \<Rightarrow> Inl e
                     | Inr names \<Rightarrow> Inr (name # names)))
          else suggested_names_loop rest suggested_tag_ids)"

definition suggested_tag_names :: "json \<Rightarrow> json list \<Rightarrow> py_exception + json list" where
  "suggested_tag_names all_tags suggested_tag_ids =
     bind_exc (py_iter all_tags) (\<lambda>tags. suggested_names_loop tags suggested_tag_ids)"

text \<open>\<open>list(set(current_tags + suggested_tag_ids))\<close>\<close>

definition union_tags :: "environment \<Rightarrow> json \<Rightarrow> json list \<Rightarrow> py_exception + json list" where
  "union_tags env current_tags suggested_tag_ids =
     bind_exc (py_add_list current_tags suggested_tag_ids) (\<lambda>both.
     bind_exc (py_set both) (\<lambda>elems.
     Inr (set_order env elems)))"

text \<open>The block under \<open>if update_automatically and suggested_tag_ids:\<close>.\<close>

definition apply_suggested_tags ::
  "environment \<Rightarrow> int \<Rightarrow> json \<Rightarrow> json list \<Rightarrow> request list \<Rightarrow> (py_exception + unit) \<times> request list" where
  "apply_suggested_tags env document_id document suggested_tag_ids log =
     (case bind_exc (py_get document ''tags'' (JList [])) (\<lambda>current_tags.
             union_tags env current_tags suggested_tag_ids) of
        Inl e \<Rightarrow> (Inl e, log)
      | Inr new_tags \<Rightarrow>
          (case update_paperless_document env document_id [(''tags'', JList new_tags)] log of
             (Inl e, log') \<Rightarrow> (Inl e, log')
           | (Inr updated, log') \<Rightarrow> (Inr (), log')))"

definition tool_analyze_document_try ::
  "environment \<Rightarrow> int \<Rightarrow> bool \<Rightarrow> request list \<Rightarrow> (py_exception + py_dict) \<times> request list" where
  "tool_analyze_document_try env document_id update_automatically log =
     (case fetch_paperless_document env document_id log of
        (Inl e, log1) \<Rightarrow> (Inl e, log1)
      | (Inr document, log1) \<Rightarrow>
          (case bind_exc (py_get document ''title'' (JStr [])) (\<lambda>document_title.
                bind_exc (py_get document ''content'' (JStr [])) (\<lambda>document_content.
                Inr (document_title, document_content))) of
             Inl e \<Rightarrow> (Inl e, log1)
           | Inr (document_title, document_content) \<Rightarrow>
               (case fetch_paperless_tags env log1 of
                  (Inl e, log2) \<Rightarrow> (Inl e, log2)
                | (Inr all_tags, log2) \<Rightarrow>
                    (case suggest_tag_ids all_tags document_title document_content of
                       Inl e \<Rightarrow> (Inl e, log2)
                     | Inr suggested_tag_ids \<Rightarrow>
                         (case (if update_automatically \<and> suggested_tag_ids \<noteq> []
                                then apply_suggested_tags env document_id document suggested_tag_ids log2
                                else (Inr (), log2)) of
                            (Inl e, log3) \<Rightarrow> (Inl e, log3)
                          | (Inr u, log3) \<Rightarrow>
                              (bind_exc (suggested_tag_names all_tags suggested_tag_ids)
                                 (\<lambda>suggested_tag_names.
                                    Inr [(''success'', JBool True),
                                         (''document_id'', JInt document_id),
                                         (''document_title'', document_title),
                                         (''suggested_tags'', JList suggested_tag_names),
                                         (''suggested_tag_ids'', JList suggested_tag_ids),
                                         (''tags_updated'', JBool update_automatically),
                                         (''message'', JStr ''Document analyzed successfully'')]),
                               log3))))))"

definition tool_analyze_document ::
  "environment \<Rightarrow> int \<Rightarrow> bool \<Rightarrow> request list \<Rightarrow> (py_exception + py_dict) \<times> request list" where
  "tool_analyze_document env document_id update_automatically log =
     (let (r, log') = tool_analyze_document_try env document_id update_automatically log
      in (except_Exception r
            (\<lambda>e. [(''success'', JBool False), (''error'', JStr (exc_text env e)),
                  (''document_id'', JInt document_id)]),
          log'))"

subsection \<open>Tool: search similar documents\<close>

text \<open>\<open>[doc for doc in similar_docs if doc["id"] != document_id]\<close>\<close>

fun exclude_reference :: "json list \<Rightarrow> int \<Rightarrow> py_exception + json list" where
  "exclude_reference [] document_id = Inr []"
| "exclude_reference (doc # rest) document_id =
     (case py_getitem doc ''id'' of
        Inl e \<Rightarrow> Inl e
      | Inr doc_id \<Rightarrow>
          (case exclude_reference rest document_id of
             Inl e \<Rightarrow> Inl e
           | Inr kept \<Rightarrow> Inr (if \<not> py_eq doc_id (JInt document_id) then doc # kept else kept)))"

text \<open>\<open>[doc for doc in similar_docs if doc["id"] != document_id][:max_results]\<close>\<close>

definition similar_documents :: "json \<Rightarrow> int \<Rightarrow> int \<Rightarrow> py_exception + json list" where
  "similar_documents similar_docs document_id max_results =
     bind_exc (py_iter similar_docs) (\<lambda>docs.
     bind_exc (exclude_reference docs document_id) (\<lambda>kept.
     Inr (py_slice_to kept max_results)))"

definition tool_search_similar_documents_try ::
  "environment \<Rightarrow> int \<Rightarrow> int \<Rightarrow> request list \<Rightarrow> (py_exception + py_dict) \<times> request list" where
  "tool_search_similar_documents_try env document_id max_results log =
     (case fetch_paperless_document env document_id log of
        (Inl e, log1) \<Rightarrow> (Inl e, log1)
      | (Inr reference_doc, log1) \<Rightarrow>
          (case bind_exc (py_get reference_doc ''correspondent'' JNull) (\<lambda>correspondent_id.
                bind_exc (py_get reference_doc ''document_type'' JNull) (\<lambda>document_type.
                bind_exc (py_get reference_doc ''tags'' (JList [])) (\<lambda>tags.
                Inr (correspondent_id, document_type, tags)))) of
             Inl e \<Rightarrow> (Inl e, log1)
           | Inr (correspondent_id, document_type, tags) \<Rightarrow>
               (case fetch_paperless_documents env JNull JNull correspondent_id document_type
                       JNull JNull (max_results + 1) log1 of
                  (Inl e, log2) \<Rightarrow> (Inl e, log2)
                | (Inr similar_docs, log2) \<Rightarrow>
                    (bind_exc (similar_documents similar_docs document_id max_results)
                       (\<lambda>similar_docs'.
                          Inr [(''success'', JBool True),
                               (''reference_document_id'', JInt document_id),
                               (''similar_documents'', JList similar_docs'),
                               (''similarity_criteria'',
                                JObj [(''correspondent_id'', correspondent_id),
                                      (''document_type'', document_type),
                                      (''tags'', tags)])]),
                     log2))))"

definition tool_search_similar_documents ::
  "environment \<Rightarrow> int \<Rightarrow> int \<Rightarrow> request list \<Rightarrow> (py_exception + py_dict) \<times> request list" where
  "tool_search_similar_documents env document_id max_results log =
     (let (r, log') = tool_search_similar_documents_try env document_id max_results log
      in (except_Exception r
            (\<lambda>e. [(''success'', JBool False), (''error'', JStr (exc_text env e)),
                  (''reference_document_id'', JInt document_id)]),
          log'))"

section \<open>Notions used in the statements\<close>

text \<open>The exception \<open>requests\<close> raises for a reply, before the body is read: a transport
  failure, or a status code that \<open>raise_for_status\<close> rejects.\<close>

definition upstream_failure :: "upstream_reply \<Rightarrow> py_exception option" where
  "upstream_failure rep =
     (case rep of
        NoReply msg \<Rightarrow> Some (RequestException msg)
      | Reply status b \<Rightarrow> if 400 \<le> status \<and> status < 600 then Some (HTTPError status) else None)"

text \<open>The request \<open>req\<close>, sent after \<open>log\<close>, fails with the exception \<open>e\<close> of \<open>requests\<close>.\<close>

definition request_fails :: "environment \<Rightarrow> request list \<Rightarrow> request \<Rightarrow> py_exception \<Rightarrow> bool" where
  "request_fails env log req e = (upstream_failure (upstream env (log @ [req])) = Some e)"

text \<open>An exception that carries a given HTTP status as its status code.\<close>

definition carries_status :: "py_exception \<Rightarrow> int \<Rightarrow> bool" where
  "carries_status e status =
     (case e of HTTPException code detail \<Rightarrow> code = status | HTTPError code \<Rightarrow> code = status | _ \<Rightarrow> False)"

text \<open>A tag as the document API lists it: a dictionary with a string \<open>name\<close> and an
  integer \<open>id\<close> (and any other fields).\<close>

definition is_tag :: "json \<Rightarrow> bool" where
  "is_tag tag =
     (case (py_getitem tag ''name'', py_getitem tag ''id'') of
        (Inr (JStr name), Inr (JInt tag_id)) \<Rightarrow> True
      | _ \<Rightarrow> False)"

definition tag_name_of :: "json \<Rightarrow> string" where
  "tag_name_of tag = (case py_getitem tag ''name'' of Inr (JStr name) \<Rightarrow> name | _ \<Rightarrow> [])"

definition tag_id_of :: "json \<Rightarrow> json" where
  "tag_id_of tag = (case py_getitem tag ''id'' of Inr tag_id \<Rightarrow> tag_id | _ \<Rightarrow> JNull)"

text \<open>The specification's criterion: the case-folded name of the tag is a literal
  substring of the case-folded title or of the case-folded content.\<close>

definition tag_matches :: "string \<Rightarrow> string \<Rightarrow> json \<Rightarrow> bool" where
  "tag_matches title content tag \<longleftrightarrow>
     sublist (str_lower (tag_name_of tag)) (str_lower title) \<or>
     sublist (str_lower (tag_name_of tag)) (str_lower content)"

text \<open>The requests sent after the point \<open>log\<close> of a run that ended with \<open>log'\<close>.\<close>

definition sent_since :: "request list \<Rightarrow> request list \<Rightarrow> request list" where
  "sent_since log log' = drop (length log) log'"

subsection \<open>A test environment\<close>

text \<open>An upstream that answers the n-th request with the n-th reply of a script, and
  refuses the connection once the script is used up.\<close>

definition scripted_upstream :: "upstream_reply list \<Rightarrow> request list \<Rightarrow> upstream_reply" where
  "scripted_upstream replies log =
     (if log \<noteq> [] \<and> length log \<le> length replies then replies ! (length log - 1)
      else NoReply ''connection refused'')"

fun exception_text :: "py_exception \<Rightarrow> string" where
  "exception_text (RequestException msg) = msg"
| "exception_text (HTTPError status) =
     (if status = 404 then ''404 Client Error: Not Found for url''
      else if status = 503 then ''503 Server Error: Service Unavailable for url''
      else ''HTTP error for url'')"
| "exception_text JSONDecodeError = ''Expecting value''"
| "exception_text (HTTPException status detail) = detail"
| "exception_text TypeError = ''TypeError''"
| "exception_text AttributeError = ''AttributeError''"
| "exception_text (KeyError k) = k"

text \<open>The document of the specification's example.\<close>

definition example_document :: py_dict where
  "example_document =
     [(''title'', JStr ''A''), (''tags'', JList [JInt 1, JInt 2]), (''correspondent'', JInt 5)]"

text \<open>A document of the specification's similarity example: correspondent 3, type 2.\<close>

definition example_similar :: "int \<Rightarrow> json" where
  "example_similar n = JObj [(''id'', JInt n), (''correspondent'', JInt 3), (''document_type'', JInt 2)]"

text \<open>The document of the specification's tag-suggestion example, and a tag.\<close>

definition example_invoice :: json where
  "example_invoice =
     JObj [(''id'', JInt 7), (''title'', JStr ''Invoice from Acme Corp''),
           (''content'', JStr ''Payable within 30 days''), (''tags'', JList [JInt 9])]"

definition example_tag :: "int \<Rightarrow> string \<Rightarrow> json" where
  "example_tag tag_id name = JObj [(''id'', JInt tag_id), (''name'', JStr name)]"

definition test_env :: "upstream_reply list \<Rightarrow> environment" where
  "test_env replies =
     \<lparr>upstream = scripted_upstream replies, exc_text = exception_text, set_order = rev,
      now_isoformat = (\<lambda>log. ''2024-01-01T00:00:00'')\<rparr>"

section \<open>The registry\<close>

text \<open>
  Modelled from the spec: the resource/tool registry (\<open>mcp_api_adapter.Adapter\<close>), which
  is imported by the server and is not part of the sources. The specification gives its
  contract: every resource and tool is registered under a unique name with a parameter
  schema; \<open>invokeResource(name, params)\<close> and \<open>invokeTool(name, params)\<close> run the
  handler registered under the name; an unknown name fails with \<open>NotFoundError\<close>;
  parameters are validated for the presence of the required ones. The names, the
  parameters and their types are those of the decorators and signatures in the server.
  The handlers are typed here, so a parameter of another type than its annotation counts
  as invalid; the specification does not name the error of an invalid call, it is
  \<open>InvalidParameters\<close> here. \<open>HandlerFault\<close> stands for an exception that escapes a
  handler.
\<close>

datatype registry_error = NotFoundError string | InvalidParameters | HandlerFault py_exception

datatype param_type = AnyParam | IntParam | StrParam | BoolParam | IntListParam | DictParam

fun has_type :: "param_type \<Rightarrow> json \<Rightarrow> bool" where
  "has_type AnyParam v = True"
| "has_type IntParam v = (case v of JInt n \<Rightarrow> True | _ \<Rightarrow> False)"
| "has_type StrParam v = (case v of JStr s \<Rightarrow> True | _ \<Rightarrow> False)"
| "has_type BoolParam v = (case v of JBool b \<Rightarrow> True | _ \<Rightarrow> False)"
| "has_type IntListParam v =
     (case v of JList xs \<Rightarrow> list_all (\<lambda>x. case x of JInt n \<Rightarrow> True | _ \<Rightarrow> False) xs | _ \<Rightarrow> False)"
| "has_type DictParam v = (case v of JObj d \<Rightarrow> True | _ \<Rightarrow> False)"

text \<open>A parameter of a schema: its name, whether it is required, its type.\<close>

type_synonym param_schema = "(string \<times> bool \<times> param_type) list"

definition valid_params :: "param_schema \<Rightarrow> py_dict \<Rightarrow> bool" where
  "valid_params schema params =
     list_all (\<lambda>(name, required, ty).
        case map_of params name of None \<Rightarrow> \<not> required | Some v \<Rightarrow> has_type ty v) schema"

definition resource_registry :: "(string \<times> param_schema) list" where
  "resource_registry =
     [(''documents'',
         [(''query'', False, AnyParam), (''tag_id'', False, AnyParam),
          (''correspondent_id'', False, AnyParam), (''document_type_id'', False, AnyParam),
          (''created_after'', False, AnyParam), (''created_before'', False, AnyParam),
          (''limit'', False, IntParam)]),
      (''document'', [(''document_id'', True, IntParam)]),
      (''tags'', []),
      (''correspondents'', []),
      (''document_types'', []),
      (''workflows'', [])]"

definition tool_registry :: "(string \<times> param_schema) list" where
  "tool_registry =
     [(''trigger_workflow'',
         [(''workflow_id'', True, StrParam), (''document_id'', True, IntParam),
          (''additional_data'', False, DictParam)]),
      (''update_document_tags'',
         [(''document_id'', True, IntParam), (''add_tags'', False, IntListParam),
          (''remove_tags'', False, IntListParam)]),
      (''analyze_document'',
         [(''document_id'', True, IntParam), (''update_automatically'', False, BoolParam)]),
      (''search_similar_documents'',
         [(''document_id'', True, IntParam), (''max_results'', False, IntParam)])]"

text \<open>Reading a parameter, with the default of the handler's signature.\<close>

definition any_param :: "py_dict \<Rightarrow> string \<Rightarrow> json" where
  "any_param params name = (case map_of params name of Some v \<Rightarrow> v | None \<Rightarrow> JNull)"

definition int_param :: "py_dict \<Rightarrow> string \<Rightarrow> int \<Rightarrow> int" where
  "int_param params name dflt = (case map_of params name of Some (JInt n) \<Rightarrow> n | _ \<Rightarrow> dflt)"

definition str_param :: "py_dict \<Rightarrow> string \<Rightarrow> string" where
  "str_param params name = (case map_of params name of Some (JStr s) \<Rightarrow> s | _ \<Rightarrow> [])"

definition bool_param :: "py_dict \<Rightarrow> string \<Rightarrow> bool \<Rightarrow> bool" where
  "bool_param params name dflt = (case map_of params name of Some (JBool b) \<Rightarrow> b | _ \<Rightarrow> dflt)"

definition int_list_param :: "py_dict \<Rightarrow> string \<Rightarrow> int list option" where
  "int_list_param params name =
     (case map_of params name of
        Some (JList xs) \<Rightarrow> Some (map (\<lambda>x. case x of JInt n \<Rightarrow> n | _ \<Rightarrow> 0) xs)
      | _ \<Rightarrow> None)"

definition dict_param :: "py_dict \<Rightarrow> string \<Rightarrow> py_dict option" where
  "dict_param params name = (case map_of params name of Some (JObj d) \<Rightarrow> Some d | _ \<Rightarrow> None)"

text \<open>What the registry hands back for the outcome of a handler.\<close>

definition deliver ::
  "(py_exception + py_dict) \<times> request list \<Rightarrow> (registry_error + py_dict) \<times> request list" where
  "deliver outcome =
     (case outcome of (Inl e, log) \<Rightarrow> (Inl (HandlerFault e), log) | (Inr r, log) \<Rightarrow> (Inr r, log))"

definition call_resource ::
  "environment \<Rightarrow> string \<Rightarrow> py_dict \<Rightarrow> request list \<Rightarrow> (py_exception + py_dict) \<times> request list" where
  "call_resource env name params log =
     (if name = ''documents'' then
        get_documents env (any_param params ''query'') (any_param params ''tag_id'')
          (any_param params ''correspondent_id'') (any_param params ''document_type_id'')
          (any_param params ''created_after'') (any_param params ''created_before'')
          (int_param params ''limit'' 100) log
      else if name = ''document'' then get_document env (int_param params ''document_id'' 0) log
      else if name = ''tags'' then get_tags env log
      else if name = ''correspondents'' then get_correspondents env log
      else if name = ''document_types'' then get_document_types env log
      else get_workflows env log)"

definition call_tool ::
  "environment \<Rightarrow> string \<Rightarrow> py_dict \<Rightarrow> request list \<Rightarrow> (py_exception + py_dict) \<times> request list" where
  "call_tool env name params log =
     (if name = ''trigger_workflow'' then
        tool_trigger_workflow env (str_param params ''workflow_id'')
          (int_param params ''document_id'' 0) (dict_param params ''additional_data'') log
      else if name = ''update_document_tags'' then
        tool_update_document_tags env (int_param params ''document_id'' 0)
          (int_list_param params ''add_tags'') (int_list_param params ''remove_tags'') log
      else if name = ''analyze_document'' then
        tool_analyze_document env (int_param params ''document_id'' 0)
          (bool_param params ''update_automatically'' False) log
      else
        tool_search_similar_documents env (int_param params ''document_id'' 0)
          (int_param params ''max_results'' 5) log)"

definition invoke_resource ::
  "environment \<Rightarrow> string \<Rightarrow> py_dict \<Rightarrow> request list \<Rightarrow> (registry_error + py_dict) \<times> request list" where
  "invoke_resource env name params log =
     (case map_of resource_registry name of
        None \<Rightarrow> (Inl (NotFoundError name), log)
      | Some schema \<Rightarrow>
          if valid_params schema params then deliver (call_resource env name params log)
          else (Inl InvalidParameters, log))"

definition invoke_tool ::
  "environment \<Rightarrow> string \<Rightarrow> py_dict \<Rightarrow> request list \<Rightarrow> (registry_error + py_dict) \<times> request list" where
  "invoke_tool env name params log =
     (case map_of tool_registry name of
        None \<Rightarrow> (Inl (NotFoundError name), log)
      | Some schema \<Rightarrow>
          if valid_params schema params then deliver (call_tool env name params log)
          else (Inl InvalidParameters, log))"

section \<open>Properties\<close>

subsection \<open>Dictionaries\<close>

lemma map_of_dict_set: "map_of (dict_set d k v) = (map_of d)(k \<mapsto> v)"
  by (induction d k v rule: dict_set.induct) auto

lemma map_of_fold_dict_set:
  "map_of (fold (\<lambda>(k, v) d. dict_set d k v) b a) = map_of a ++ map_of (rev b)"
proof (induction b arbitrary: a)
  case Nil
  then show ?case by simp
next
  case (Cons kv b)
  obtain k v where kv: "kv = (k, v)" by (cases kv)
  show ?case
    by (rule ext) (simp add: kv Cons.IH map_of_dict_set map_add_def split: option.splits)
qed

lemma map_of_rev_distinct: "distinct (map fst xs) \<Longrightarrow> map_of (rev xs) = map_of xs"
  by (subst map_of_inject_set) (simp_all add: rev_map[symmetric])

lemma map_of_dict_merge:
  assumes "distinct (map fst b)"
  shows "map_of (dict_merge a b) k = (case map_of b k of None \<Rightarrow> map_of a k | Some v \<Rightarrow> Some v)"
  using assms by (simp add: dict_merge_def map_of_fold_dict_set map_of_rev_distinct map_add_def)

lemma fst_dict_set: "set (map fst (dict_set d k v)) = insert k (set (map fst d))"
  by (induction d k v rule: dict_set.induct) auto

lemma distinct_dict_set: "distinct (map fst d) \<Longrightarrow> distinct (map fst (dict_set d k v))"
proof (induction d k v rule: dict_set.induct)
  case (1 k v)
  then show ?case by simp
next
  case (2 k' v' d k v)
  then show ?case using fst_dict_set[of d k v] by auto
qed

lemma distinct_dict_merge: "distinct (map fst a) \<Longrightarrow> distinct (map fst (dict_merge a b))"
  unfolding dict_merge_def
  by (induction b arbitrary: a) (auto simp: distinct_dict_set)

subsection \<open>The HTTP calls\<close>

lemma requests_send_log: "snd (requests_send env req log) = log @ [req]"
  by (simp add: requests_send_def Let_def)

lemma requests_send_failure:
  assumes "request_fails env log req e"
  shows "(case fst (requests_send env req log) of
            Inl e' \<Rightarrow> e' = e \<and> is_RequestException e
          | Inr response \<Rightarrow> raise_for_status response = Inl e \<and> is_RequestException e)"
  using assms
  by (auto simp: requests_send_def Let_def upstream_failure_def raise_for_status_def request_fails_def
           split: upstream_reply.splits if_splits)

lemma client_failure:
  assumes "request_fails env log req e"
  shows "except_RequestException env what
           (bind_exc (fst (requests_send env req log)) (\<lambda>response.
              bind_exc (raise_for_status response) (f response))) =
         Inl (HTTPException 500 (what @ exc_text env e))"
  using requests_send_failure[OF assms]
  by (auto simp: except_RequestException_def bind_exc_def split: sum.splits)

lemma client_success:
  assumes "upstream env (log @ [req]) = Reply status (Some j)" and "\<not> (400 \<le> status \<and> status < 600)"
  shows "bind_exc (fst (requests_send env req log)) (\<lambda>response.
              bind_exc (raise_for_status response) (\<lambda>_. bind_exc (response_json response) f)) = f j"
  using assms
  by (auto simp: requests_send_def Let_def raise_for_status_def response_json_def bind_exc_def)

lemma fetch_paperless_documents_failure:
  assumes "request_fails env log (http_get PaperlessDocuments PaperlessHeaders
             (documents_params q t c d ca cb limit)) e"
  shows "fetch_paperless_documents env q t c d ca cb limit log =
           (Inl (HTTPException 500 (''Error fetching documents: '' @ exc_text env e)),
            log @ [http_get PaperlessDocuments PaperlessHeaders (documents_params q t c d ca cb limit)])"
  by (simp add: fetch_paperless_documents_def split_beta Let_def client_failure[OF assms] requests_send_log)

lemma fetch_paperless_document_failure:
  assumes "request_fails env log (http_get (PaperlessDocument document_id) PaperlessHeaders []) e"
  shows "fetch_paperless_document env document_id log =
           (Inl (HTTPException 500 (''Error fetching document: '' @ exc_text env e)),
            log @ [http_get (PaperlessDocument document_id) PaperlessHeaders []])"
  by (simp add: fetch_paperless_document_def split_beta Let_def client_failure[OF assms] requests_send_log)

lemma fetch_paperless_tags_failure:
  assumes "request_fails env log (http_get PaperlessTags PaperlessHeaders []) e"
  shows "fetch_paperless_tags env log =
           (Inl (HTTPException 500 (''Error fetching tags: '' @ exc_text env e)),
            log @ [http_get PaperlessTags PaperlessHeaders []])"
  by (simp add: fetch_paperless_tags_def split_beta Let_def client_failure[OF assms] requests_send_log)

lemma fetch_paperless_correspondents_failure:
  assumes "request_fails env log (http_get PaperlessCorrespondents PaperlessHeaders []) e"
  shows "fetch_paperless_correspondents env log =
           (Inl (HTTPException 500 (''Error fetching correspondents: '' @ exc_text env e)),
            log @ [http_get PaperlessCorrespondents PaperlessHeaders []])"
  by (simp add: fetch_paperless_correspondents_def split_beta Let_def client_failure[OF assms] requests_send_log)

lemma fetch_paperless_document_types_failure:
  assumes "request_fails env log (http_get PaperlessDocumentTypes PaperlessHeaders []) e"
  shows "fetch_paperless_document_types env log =
           (Inl (HTTPException 500 (''Error fetching document types: '' @ exc_text env e)),
            log @ [http_get PaperlessDocumentTypes PaperlessHeaders []])"
  by (simp add: fetch_paperless_document_types_def split_beta Let_def client_failure[OF assms] requests_send_log)

lemma trigger_n8n_workflow_failure:
  assumes "request_fails env log (http_post (N8nWorkflowTrigger workflow_id) N8nHeaders (JObj data)) e"
  shows "trigger_n8n_workflow env workflow_id data log =
           (Inl (HTTPException 500 (''Error triggering workflow: '' @ exc_text env e)),
            log @ [http_post (N8nWorkflowTrigger workflow_id) N8nHeaders (JObj data)])"
  by (simp add: trigger_n8n_workflow_def split_beta Let_def client_failure[OF assms] requests_send_log)

lemma fetch_n8n_workflows_failure:
  assumes "request_fails env log (http_get N8nWorkflows N8nHeaders []) e"
  shows "fetch_n8n_workflows env log =
           (Inl (HTTPException 500 (''Error fetching workflows: '' @ exc_text env e)),
            log @ [http_get N8nWorkflows N8nHeaders []])"
  by (simp add: fetch_n8n_workflows_def split_beta Let_def client_failure[OF assms] requests_send_log)

lemma fetch_paperless_document_log:
  "snd (fetch_paperless_document env document_id log) =
     log @ [http_get (PaperlessDocument document_id) PaperlessHeaders []]"
  by (simp add: fetch_paperless_document_def split_beta requests_send_log)

lemma fetch_paperless_tags_log:
  "snd (fetch_paperless_tags env log) = log @ [http_get PaperlessTags PaperlessHeaders []]"
  by (simp add: fetch_paperless_tags_def split_beta requests_send_log)

lemma fetch_paperless_documents_log:
  "snd (fetch_paperless_documents env q t c d ca cb limit log) =
     log @ [http_get PaperlessDocuments PaperlessHeaders (documents_params q t c d ca cb limit)]"
  by (simp add: fetch_paperless_documents_def split_beta Let_def requests_send_log)

text \<open>The three ways the update can go.\<close>

lemma update_paperless_document_fetch_failed:
  assumes "fetch_paperless_document env document_id log = (Inl e, log1)"
  shows "update_paperless_document env document_id update_data log =
           (except_RequestException env ''Error updating document: '' (Inl e), log1)"
  using assms by (simp add: update_paperless_document_def)

lemma update_paperless_document_not_dict:
  assumes "fetch_paperless_document env document_id log = (Inr current_doc, log1)"
      and "\<forall>d. current_doc \<noteq> JObj d"
  shows "update_paperless_document env document_id update_data log = (Inl TypeError, log1)"
  using assms
  by (cases current_doc) (simp_all add: update_paperless_document_def except_RequestException_def)

lemma update_paperless_document_put:
  assumes "fetch_paperless_document env document_id log = (Inr (JObj current_doc), log1)"
  shows "snd (update_paperless_document env document_id update_data log) =
           log1 @ [http_put (PaperlessDocument document_id) PaperlessHeaders
                     (JObj (dict_merge current_doc update_data))]"
  using assms
  by (simp add: update_paperless_document_def split_beta requests_send_log)


lemmas client_defs =
  fetch_paperless_documents_def fetch_paperless_document_def fetch_paperless_tags_def
  fetch_paperless_correspondents_def fetch_paperless_document_types_def
  trigger_n8n_workflow_def fetch_n8n_workflows_def update_paperless_document_def
  requests_send_def raise_for_status_def response_json_def except_RequestException_def
  bind_exc_def http_get_def http_put_def http_post_def documents_params_def

lemmas test_defs =
  test_env_def scripted_upstream_def request_fails_def upstream_failure_def sent_since_def
  example_document_def example_similar_def example_invoice_def example_tag_def

text \<open>
  Claim C2. The read-modify-write update performs a shallow merge: when the fetch of the
  current document succeeds, the update sends exactly one further request, the
  replacement write, and the document it carries has, for each field named in the
  payload, the payload's value (whatever the prior value was, nested or not), and for
  every other field the value of the fetched document.
\<close>

theorem update_shallow_merge:
  assumes "fetch_paperless_document env document_id log = (Inr (JObj current_doc), log1)"
      and "distinct (map fst update_data)"
  shows "\<exists>written.
           sent_since log1 (snd (update_paperless_document env document_id update_data log)) =
             [http_put (PaperlessDocument document_id) PaperlessHeaders (JObj written)] \<and>
           (\<forall>k. map_of written k =
                  (case map_of update_data k of Some v \<Rightarrow> Some v | None \<Rightarrow> map_of current_doc k))"
proof -
  let ?written = "dict_merge current_doc update_data"
  have "sent_since log1 (snd (update_paperless_document env document_id update_data log)) =
          [http_put (PaperlessDocument document_id) PaperlessHeaders (JObj ?written)]"
    by (simp add: update_paperless_document_put[OF assms(1)] sent_since_def)
  moreover have "map_of ?written k =
      (case map_of update_data k of Some v \<Rightarrow> Some v | None \<Rightarrow> map_of current_doc k)" for k
    by (simp add: map_of_dict_merge[OF assms(2)] split: option.splits)
  ultimately show ?thesis by blast
qed

text \<open>The specification's example: \<open>{title: "A", tags: [1,2], correspondent: 5}\<close> updated
  with \<open>{tags: [1,2,3]}\<close>.\<close>

theorem update_shallow_merge_example:
  "fetch_paperless_document (test_env [Reply 200 (Some (JObj example_document)), Reply 200 (Some JNull)]) 7 [] =
     (Inr (JObj example_document), [http_get (PaperlessDocument 7) PaperlessHeaders []]) \<and>
   distinct (map fst [(''tags'', JList [JInt 1, JInt 2, JInt 3])]) \<and>
   (\<exists>written.
      sent_since [http_get (PaperlessDocument 7) PaperlessHeaders []]
        (snd (update_paperless_document
               (test_env [Reply 200 (Some (JObj example_document)), Reply 200 (Some JNull)]) 7
               [(''tags'', JList [JInt 1, JInt 2, JInt 3])] [])) =
        [http_put (PaperlessDocument 7) PaperlessHeaders (JObj written)] \<and>
      map_of written ''title'' = Some (JStr ''A'') \<and>
      map_of written ''correspondent'' = Some (JInt 5) \<and>
      map_of written ''tags'' = Some (JList [JInt 1, JInt 2, JInt 3]))"
proof -
  let ?env = "test_env [Reply 200 (Some (JObj example_document)), Reply 200 (Some JNull)]"
  have f: "fetch_paperless_document ?env 7 [] =
     (Inr (JObj example_document), [http_get (PaperlessDocument 7) PaperlessHeaders []])"
    by (simp add: client_defs test_defs)
  have d: "distinct (map fst [(''tags'', JList [JInt 1, JInt 2, JInt 3])])" by simp
  from update_shallow_merge[OF f d] obtain written where
    w: "sent_since [http_get (PaperlessDocument 7) PaperlessHeaders []]
        (snd (update_paperless_document ?env 7 [(''tags'', JList [JInt 1, JInt 2, JInt 3])] [])) =
        [http_put (PaperlessDocument 7) PaperlessHeaders (JObj written)]"
    and m: "\<And>k. map_of written k =
                  (case map_of [(''tags'', JList [JInt 1, JInt 2, JInt 3])] k of Some v \<Rightarrow> Some v
                   | None \<Rightarrow> map_of example_document k)"
    by blast
  have "map_of written ''title'' = Some (JStr ''A'')"
    and "map_of written ''correspondent'' = Some (JInt 5)"
    and "map_of written ''tags'' = Some (JList [JInt 1, JInt 2, JInt 3])"
    by (simp_all add: m example_document_def)
  with f d w show ?thesis by blast
qed

subsection \<open>Failures of the client functions\<close>

lemma update_paperless_document_fetch_failure:
  assumes "request_fails env log (http_get (PaperlessDocument document_id) PaperlessHeaders []) e"
  shows "update_paperless_document env document_id update_data log =
           (Inl (HTTPException 500 (''Error fetching document: '' @ exc_text env e)),
            log @ [http_get (PaperlessDocument document_id) PaperlessHeaders []])"
  by (simp add: update_paperless_document_fetch_failed[OF fetch_paperless_document_failure[OF assms]]
        except_RequestException_def)

lemma update_paperless_document_put_failure:
  assumes "fetch_paperless_document env document_id log = (Inr (JObj current_doc), log1)"
      and "request_fails env log1 (http_put (PaperlessDocument document_id) PaperlessHeaders
             (JObj (dict_merge current_doc update_data))) e"
  shows "update_paperless_document env document_id update_data log =
           (Inl (HTTPException 500 (''Error updating document: '' @ exc_text env e)),
            log1 @ [http_put (PaperlessDocument document_id) PaperlessHeaders
                     (JObj (dict_merge current_doc update_data))])"
  using assms(1)
  by (simp add: update_paperless_document_def split_beta client_failure[OF assms(2)] requests_send_log)

text \<open>
  Claim C5, as amended. Whenever \<open>requests\<close> raises for the call of a client function (a
  transport failure, or a 4xx or 5xx status through \<open>raise_for_status\<close>), the function
  raises \<open>HTTPException\<close> with the status code 500, whatever the upstream status was, and
  with the function's own prefix followed by the text of the exception as its detail.
  Exactly one request has been sent: nothing is retried. The update fails in the same way
  at its fetch (one request) or at its write (two requests).
\<close>

theorem client_failure_is_http_500:
  "(request_fails env log (http_get PaperlessDocuments PaperlessHeaders
        (documents_params q t c d ca cb limit)) e \<longrightarrow>
      fetch_paperless_documents env q t c d ca cb limit log =
        (Inl (HTTPException 500 (''Error fetching documents: '' @ exc_text env e)),
         log @ [http_get PaperlessDocuments PaperlessHeaders (documents_params q t c d ca cb limit)])) \<and>
   (request_fails env log (http_get (PaperlessDocument document_id) PaperlessHeaders []) e \<longrightarrow>
      fetch_paperless_document env document_id log =
        (Inl (HTTPException 500 (''Error fetching document: '' @ exc_text env e)),
         log @ [http_get (PaperlessDocument document_id) PaperlessHeaders []])) \<and>
   (request_fails env log (http_get PaperlessTags PaperlessHeaders []) e \<longrightarrow>
      fetch_paperless_tags env log =
        (Inl (HTTPException 500 (''Error fetching tags: '' @ exc_text env e)),
         log @ [http_get PaperlessTags PaperlessHeaders []])) \<and>
   (request_fails env log (http_get PaperlessCorrespondents PaperlessHeaders []) e \<longrightarrow>
      fetch_paperless_correspondents env log =
        (Inl (HTTPException 500 (''Error fetching correspondents: '' @ exc_text env e)),
         log @ [http_get PaperlessCorrespondents PaperlessHeaders []])) \<and>
   (request_fails env log (http_get PaperlessDocumentTypes PaperlessHeaders []) e \<longrightarrow>
      fetch_paperless_document_types env log =
        (Inl (HTTPException 500 (''Error fetching document types: '' @ exc_text env e)),
         log @ [http_get PaperlessDocumentTypes PaperlessHeaders []])) \<and>
   (request_fails env log (http_post (N8nWorkflowTrigger workflow_id) N8nHeaders (JObj data)) e \<longrightarrow>
      trigger_n8n_workflow env workflow_id data log =
        (Inl (HTTPException 500 (''Error triggering workflow: '' @ exc_text env e)),
         log @ [http_post (N8nWorkflowTrigger workflow_id) N8nHeaders (JObj data)])) \<and>
   (request_fails env log (http_get N8nWorkflows N8nHeaders []) e \<longrightarrow>
      fetch_n8n_workflows env log =
        (Inl (HTTPException 500 (''Error fetching workflows: '' @ exc_text env e)),
         log @ [http_get N8nWorkflows N8nHeaders []])) \<and>
   (request_fails env log (http_get (PaperlessDocument document_id) PaperlessHeaders []) e \<longrightarrow>
      update_paperless_document env document_id update_data log =
        (Inl (HTTPException 500 (''Error fetching document: '' @ exc_text env e)),
         log @ [http_get (PaperlessDocument document_id) PaperlessHeaders []])) \<and>
   (fetch_paperless_document env document_id log = (Inr (JObj current_doc), log1) \<and>
    request_fails env log1 (http_put (PaperlessDocument document_id) PaperlessHeaders
        (JObj (dict_merge current_doc update_data))) e \<longrightarrow>
      update_paperless_document env document_id update_data log =
        (Inl (HTTPException 500 (''Error updating document: '' @ exc_text env e)),
         log1 @ [http_put (PaperlessDocument document_id) PaperlessHeaders
                   (JObj (dict_merge current_doc update_data))]))"
proof (intro conjI impI)
  show "fetch_paperless_documents env q t c d ca cb limit log =
        (Inl (HTTPException 500 (''Error fetching documents: '' @ exc_text env e)),
         log @ [http_get PaperlessDocuments PaperlessHeaders (documents_params q t c d ca cb limit)])"
    if "request_fails env log (http_get PaperlessDocuments PaperlessHeaders
        (documents_params q t c d ca cb limit)) e"
    using that by (rule fetch_paperless_documents_failure)
  show "fetch_paperless_document env document_id log =
        (Inl (HTTPException 500 (''Error fetching document: '' @ exc_text env e)),
         log @ [http_get (PaperlessDocument document_id) PaperlessHeaders []])"
    if "request_fails env log (http_get (PaperlessDocument document_id) PaperlessHeaders []) e"
    using that by (rule fetch_paperless_document_failure)
  show "fetch_paperless_tags env log =
        (Inl (HTTPException 500 (''Error fetching tags: '' @ exc_text env e)),
         log @ [http_get PaperlessTags PaperlessHeaders []])"
    if "request_fails env log (http_get PaperlessTags PaperlessHeaders []) e"
    using that by (rule fetch_paperless_tags_failure)
  show "fetch_paperless_correspondents env log =
        (Inl (HTTPException 500 (''Error fetching correspondents: '' @ exc_text env e)),
         log @ [http_get PaperlessCorrespondents PaperlessHeaders []])"
    if "request_fails env log (http_get PaperlessCorrespondents PaperlessHeaders []) e"
    using that by (rule fetch_paperless_correspondents_failure)
  show "fetch_paperless_document_types env log =
        (Inl (HTTPException 500 (''Error fetching document types: '' @ exc_text env e)),
         log @ [http_get PaperlessDocumentTypes PaperlessHeaders []])"
    if "request_fails env log (http_get PaperlessDocumentTypes PaperlessHeaders []) e"
    using that by (rule fetch_paperless_document_types_failure)
  show "trigger_n8n_workflow env workflow_id data log =
        (Inl (HTTPException 500 (''Error triggering workflow: '' @ exc_text env e)),
         log @ [http_post (N8nWorkflowTrigger workflow_id) N8nHeaders (JObj data)])"
    if "request_fails env log (http_post (N8nWorkflowTrigger workflow_id) N8nHeaders (JObj data)) e"
    using that by (rule trigger_n8n_workflow_failure)
  show "fetch_n8n_workflows env log =
        (Inl (HTTPException 500 (''Error fetching workflows: '' @ exc_text env e)),
         log @ [http_get N8nWorkflows N8nHeaders []])"
    if "request_fails env log (http_get N8nWorkflows N8nHeaders []) e"
    using that by (rule fetch_n8n_workflows_failure)
  show "update_paperless_document env document_id update_data log =
        (Inl (HTTPException 500 (''Error fetching document: '' @ exc_text env e)),
         log @ [http_get (PaperlessDocument document_id) PaperlessHeaders []])"
    if "request_fails env log (http_get (PaperlessDocument document_id) PaperlessHeaders []) e"
    using that by (rule update_paperless_document_fetch_failure)
  show "update_paperless_document env document_id update_data log =
        (Inl (HTTPException 500 (''Error updating document: '' @ exc_text env e)),
         log1 @ [http_put (PaperlessDocument document_id) PaperlessHeaders
                   (JObj (dict_merge current_doc update_data))])"
    if "fetch_paperless_document env document_id log = (Inr (JObj current_doc), log1) \<and>
        request_fails env log1 (http_put (PaperlessDocument document_id) PaperlessHeaders
          (JObj (dict_merge current_doc update_data))) e"
    using that by (blast intro: update_paperless_document_put_failure)
qed

text \<open>
  Claim C5 as stated fails twice. An upstream 404 surfaces with the status code 500: the
  upstream status is not the status of the error, it only appears in the text.
  And a response with status 304 is not a 2xx response, yet \<open>raise_for_status\<close> accepts
  it and the client function returns its body.
\<close>

theorem client_status_counterexample:
  "upstream (test_env [Reply 404 None]) [http_get (PaperlessDocument 7) PaperlessHeaders []] = Reply 404 None \<and>
   fst (fetch_paperless_document (test_env [Reply 404 None]) 7 []) =
     Inl (HTTPException 500 ''Error fetching document: 404 Client Error: Not Found for url'') \<and>
   \<not> carries_status (HTTPException 500 ''Error fetching document: 404 Client Error: Not Found for url'') 404 \<and>
   upstream (test_env [Reply 304 (Some (JObj example_document))])
     [http_get (PaperlessDocument 7) PaperlessHeaders []] = Reply 304 (Some (JObj example_document)) \<and>
   fst (fetch_paperless_document (test_env [Reply 304 (Some (JObj example_document))]) 7 []) =
     Inr (JObj example_document)"
  by (simp add: client_defs test_defs carries_status_def)


text \<open>A connection that times out, for each client function; and a write answered with
  503 after a successful fetch.\<close>

theorem client_failure_is_http_500_witness:
  "request_fails (test_env [NoReply ''Connection timed out'']) []
     (http_get PaperlessDocuments PaperlessHeaders
        (documents_params JNull JNull (JInt 3) (JInt 2) JNull JNull 6))
     (RequestException ''Connection timed out'') \<and>
   fetch_paperless_documents (test_env [NoReply ''Connection timed out''])
       JNull JNull (JInt 3) (JInt 2) JNull JNull 6 [] =
     (Inl (HTTPException 500 ''Error fetching documents: Connection timed out''),
      [http_get PaperlessDocuments PaperlessHeaders
         [(''page_size'', JInt 6), (''correspondent__id'', JInt 3), (''document_type__id'', JInt 2)]]) \<and>
   fetch_paperless_document (test_env [NoReply ''Connection timed out'']) 7 [] =
     (Inl (HTTPException 500 ''Error fetching document: Connection timed out''),
      [http_get (PaperlessDocument 7) PaperlessHeaders []]) \<and>
   fetch_paperless_tags (test_env [NoReply ''Connection timed out'']) [] =
     (Inl (HTTPException 500 ''Error fetching tags: Connection timed out''),
      [http_get PaperlessTags PaperlessHeaders []]) \<and>
   fetch_paperless_correspondents (test_env [NoReply ''Connection timed out'']) [] =
     (Inl (HTTPException 500 ''Error fetching correspondents: Connection timed out''),
      [http_get PaperlessCorrespondents PaperlessHeaders []]) \<and>
   fetch_paperless_document_types (test_env [NoReply ''Connection timed out'']) [] =
     (Inl (HTTPException 500 ''Error fetching document types: Connection timed out''),
      [http_get PaperlessDocumentTypes PaperlessHeaders []]) \<and>
   trigger_n8n_workflow (test_env [NoReply ''Connection timed out'']) ''w1'' [] [] =
     (Inl (HTTPException 500 ''Error triggering workflow: Connection timed out''),
      [http_post (N8nWorkflowTrigger ''w1'') N8nHeaders (JObj [])]) \<and>
   fetch_n8n_workflows (test_env [NoReply ''Connection timed out'']) [] =
     (Inl (HTTPException 500 ''Error fetching workflows: Connection timed out''),
      [http_get N8nWorkflows N8nHeaders []]) \<and>
   update_paperless_document (test_env [NoReply ''Connection timed out'']) 7 [] [] =
     (Inl (HTTPException 500 ''Error fetching document: Connection timed out''),
      [http_get (PaperlessDocument 7) PaperlessHeaders []]) \<and>
   fetch_paperless_document (test_env [Reply 200 (Some (JObj example_document)), Reply 503 None]) 7 [] =
     (Inr (JObj example_document), [http_get (PaperlessDocument 7) PaperlessHeaders []]) \<and>
   request_fails (test_env [Reply 200 (Some (JObj example_document)), Reply 503 None])
     [http_get (PaperlessDocument 7) PaperlessHeaders []]
     (http_put (PaperlessDocument 7) PaperlessHeaders (JObj (dict_merge example_document [])))
     (HTTPError 503) \<and>
   update_paperless_document (test_env [Reply 200 (Some (JObj example_document)), Reply 503 None]) 7 [] [] =
     (Inl (HTTPException 500
            ''Error updating document: 503 Server Error: Service Unavailable for url''),
      [http_get (PaperlessDocument 7) PaperlessHeaders [],
       http_put (PaperlessDocument 7) PaperlessHeaders (JObj example_document)])"
proof -
  let ?down = "test_env [NoReply ''Connection timed out'']"
  let ?late = "test_env [Reply 200 (Some (JObj example_document)), Reply 503 None]"
  have down: "request_fails ?down [] req (RequestException ''Connection timed out'')" for req
    by (simp add: test_defs)
  have msgs: "exc_text ?down (RequestException ''Connection timed out'') = ''Connection timed out''"
    "exc_text ?late (HTTPError 503) = ''503 Server Error: Service Unavailable for url''"
    by (simp_all add: test_defs)
  have params: "documents_params JNull JNull (JInt 3) (JInt 2) JNull JNull 6 =
     [(''page_size'', JInt 6), (''correspondent__id'', JInt 3), (''document_type__id'', JInt 2)]"
    by (simp add: documents_params_def)
  have fetched: "fetch_paperless_document ?late 7 [] =
     (Inr (JObj example_document), [http_get (PaperlessDocument 7) PaperlessHeaders []])"
    by (simp add: client_defs test_defs)
  have late: "request_fails ?late [http_get (PaperlessDocument 7) PaperlessHeaders []]
     (http_put (PaperlessDocument 7) PaperlessHeaders (JObj (dict_merge example_document [])))
     (HTTPError 503)"
    by (simp add: test_defs)
  have merged: "dict_merge example_document [] = example_document"
    by (simp add: dict_merge_def)
  note first = client_failure_is_http_500[where env = ?down and log = "[]" and q = JNull
      and t = JNull and c = "JInt 3" and d = "JInt 2" and ca = JNull and cb = JNull and limit = 6
      and e = "RequestException ''Connection timed out''" and document_id = 7
      and workflow_id = "''w1''" and data = "[]" and update_data = "[]"]
  note second = client_failure_is_http_500[where env = ?late and log = "[]"
      and e = "HTTPError 503" and document_id = 7 and update_data = "[]"
      and current_doc = example_document
      and ?log1.0 = "[http_get (PaperlessDocument 7) PaperlessHeaders []]"]
  show ?thesis
    using first second down late fetched
    by (simp add: msgs params merged del: append.simps)
qed

lemma update_paperless_document_log:
  "snd (update_paperless_document env document_id update_data log) =
     (case fst (fetch_paperless_document env document_id log) of
        Inr (JObj current_doc) \<Rightarrow>
          log @ [http_get (PaperlessDocument document_id) PaperlessHeaders [],
                 http_put (PaperlessDocument document_id) PaperlessHeaders
                   (JObj (dict_merge current_doc update_data))]
      | _ \<Rightarrow> log @ [http_get (PaperlessDocument document_id) PaperlessHeaders []])"
proof (cases "fetch_paperless_document env document_id log")
  case (Pair r log1)
  then have log1: "log1 = log @ [http_get (PaperlessDocument document_id) PaperlessHeaders []]"
    using fetch_paperless_document_log[of env document_id log] by simp
  show ?thesis
  proof (cases r)
    case (Inl e)
    with Pair log1 show ?thesis
      by (simp add: update_paperless_document_fetch_failed)
  next
    case (Inr current)
    show ?thesis
    proof (cases "\<exists>d. current = JObj d")
      case True
      then obtain d where "current = JObj d" by blast
      with Pair Inr log1 show ?thesis
        by (simp add: update_paperless_document_put)
    next
      case False
      then have "\<forall>d. current \<noteq> JObj d" by blast
      from update_paperless_document_not_dict[OF _ this] Pair Inr log1 False show ?thesis
        by (cases current) simp_all
    qed
  qed
qed


subsection \<open>The update tool\<close>

lemmas handler_defs =
  except_Exception_def get_documents_def get_document_def get_tags_def get_correspondents_def
  get_document_types_def get_workflows_def tool_trigger_workflow_def tool_trigger_workflow_try_def
  tool_update_document_tags_def tool_update_document_tags_try_def new_tag_list_def
  remove_tags_filter_def tool_analyze_document_def tool_analyze_document_try_def
  suggest_tag_ids_def suggested_tag_names_def union_tags_def apply_suggested_tags_def
  tool_search_similar_documents_def tool_search_similar_documents_try_def similar_documents_def
  list_contains_def py_set_def py_set_add_def py_slice_to_def str_lower_def lower_char_def
  dict_merge_def

lemma tool_update_document_tags_fetch_failed:
  assumes "fst (fetch_paperless_document env document_id log) = Inl e"
  shows "tool_update_document_tags env document_id add_tags remove_tags log =
           (Inr [(''success'', JBool False), (''error'', JStr (exc_text env e)),
                 (''document_id'', JInt document_id)],
            log @ [http_get (PaperlessDocument document_id) PaperlessHeaders []])"
proof -
  from assms have "fetch_paperless_document env document_id log =
      (Inl e, log @ [http_get (PaperlessDocument document_id) PaperlessHeaders []])"
    using fetch_paperless_document_log[of env document_id log] by (simp add: prod_eq_iff)
  then show ?thesis
    by (simp add: tool_update_document_tags_def tool_update_document_tags_try_def
          except_Exception_def)
qed

lemma tool_update_document_tags_log:
  "snd (tool_update_document_tags env document_id add_tags remove_tags log) =
     (case fst (fetch_paperless_document env document_id log) of
        Inl e \<Rightarrow> log @ [http_get (PaperlessDocument document_id) PaperlessHeaders []]
      | Inr document \<Rightarrow>
          (case new_tag_list document add_tags remove_tags of
             Inl e \<Rightarrow> log @ [http_get (PaperlessDocument document_id) PaperlessHeaders []]
           | Inr current_tags \<Rightarrow>
               snd (update_paperless_document env document_id [(''tags'', current_tags)]
                      (log @ [http_get (PaperlessDocument document_id) PaperlessHeaders []]))))"
proof (cases "fetch_paperless_document env document_id log")
  case (Pair r log1)
  then have log1: "log1 = log @ [http_get (PaperlessDocument document_id) PaperlessHeaders []]"
    using fetch_paperless_document_log[of env document_id log] by simp
  from Pair log1 show ?thesis
    by (simp add: tool_update_document_tags_def tool_update_document_tags_try_def
          split_beta split: sum.splits prod.splits)
qed

text \<open>
  Claim C3. If the initial fetch of the document fails, \<open>tool_update_document_tags\<close>
  returns the failure dictionary with the document id and the text of the error, and the
  fetch is the only request it has sent. And whenever the tool sends a write, the initial
  fetch and the fetch of the update both succeeded before it: the requests of the run are
  the two fetches followed by the write.
\<close>

theorem update_tags_fetch_before_write:
  "(fst (fetch_paperless_document env document_id log) = Inl e \<longrightarrow>
      tool_update_document_tags env document_id add_tags remove_tags log =
        (Inr [(''success'', JBool False), (''error'', JStr (exc_text env e)),
              (''document_id'', JInt document_id)],
         log @ [http_get (PaperlessDocument document_id) PaperlessHeaders []])) \<and>
   (list_ex (\<lambda>req. req_method req = PUT)
      (sent_since log (snd (tool_update_document_tags env document_id add_tags remove_tags log))) \<longrightarrow>
      (\<exists>document current_doc written.
         fst (fetch_paperless_document env document_id log) = Inr document \<and>
         fst (fetch_paperless_document env document_id
                (log @ [http_get (PaperlessDocument document_id) PaperlessHeaders []])) =
           Inr (JObj current_doc) \<and>
         sent_since log (snd (tool_update_document_tags env document_id add_tags remove_tags log)) =
           [http_get (PaperlessDocument document_id) PaperlessHeaders [],
            http_get (PaperlessDocument document_id) PaperlessHeaders [],
            http_put (PaperlessDocument document_id) PaperlessHeaders (JObj written)]))"
proof (intro conjI impI)
  assume "fst (fetch_paperless_document env document_id log) = Inl e"
  then show "tool_update_document_tags env document_id add_tags remove_tags log =
        (Inr [(''success'', JBool False), (''error'', JStr (exc_text env e)),
              (''document_id'', JInt document_id)],
         log @ [http_get (PaperlessDocument document_id) PaperlessHeaders []])"
    by (rule tool_update_document_tags_fetch_failed)
next
  let ?get = "http_get (PaperlessDocument document_id) PaperlessHeaders []"
  let ?log' = "snd (tool_update_document_tags env document_id add_tags remove_tags log)"
  assume put: "list_ex (\<lambda>req. req_method req = PUT) (sent_since log ?log')"
  have no_put: "\<not> list_ex (\<lambda>req. req_method req = PUT) (sent_since log (log @ [?get]))"
    by (simp add: sent_since_def http_get_def)
  from put no_put obtain document where
    doc: "fst (fetch_paperless_document env document_id log) = Inr document"
    by (cases "fst (fetch_paperless_document env document_id log)")
       (auto simp: tool_update_document_tags_log)
  from put no_put doc obtain current_tags where
    tags: "new_tag_list document add_tags remove_tags = Inr current_tags"
    by (cases "new_tag_list document add_tags remove_tags")
       (auto simp: tool_update_document_tags_log)
  from doc tags have log': "?log' =
      snd (update_paperless_document env document_id [(''tags'', current_tags)] (log @ [?get]))"
    by (simp add: tool_update_document_tags_log)
  have no_put2: "\<not> list_ex (\<lambda>req. req_method req = PUT) (sent_since log ((log @ [?get]) @ [?get]))"
    by (simp add: sent_since_def http_get_def)
  from put no_put2 obtain current_doc where
    cur: "fst (fetch_paperless_document env document_id (log @ [?get])) = Inr (JObj current_doc)"
    unfolding log' update_paperless_document_log
    by (auto split: sum.splits json.splits)
  from cur have "sent_since log ?log' =
      [?get, ?get, http_put (PaperlessDocument document_id) PaperlessHeaders
                     (JObj (dict_merge current_doc [(''tags'', current_tags)]))]"
    unfolding log' update_paperless_document_log by (simp add: sent_since_def)
  with doc cur show "\<exists>document current_doc written.
         fst (fetch_paperless_document env document_id log) = Inr document \<and>
         fst (fetch_paperless_document env document_id (log @ [?get])) = Inr (JObj current_doc) \<and>
         sent_since log ?log' =
           [?get, ?get, http_put (PaperlessDocument document_id) PaperlessHeaders (JObj written)]"
    by blast
qed


text \<open>A fetch that times out, and a run in which every call succeeds.\<close>

theorem update_tags_fetch_before_write_witness:
  "fst (fetch_paperless_document (test_env [NoReply ''Connection timed out'']) 7 []) =
     Inl (HTTPException 500 ''Error fetching document: Connection timed out'') \<and>
   tool_update_document_tags (test_env [NoReply ''Connection timed out'']) 7 (Some [3]) None [] =
     (Inr [(''success'', JBool False),
           (''error'', JStr ''Error fetching document: Connection timed out''),
           (''document_id'', JInt 7)],
      [http_get (PaperlessDocument 7) PaperlessHeaders []]) \<and>
   list_ex (\<lambda>req. req_method req = PUT)
     (sent_since []
        (snd (tool_update_document_tags
               (test_env [Reply 200 (Some (JObj example_document)),
                          Reply 200 (Some (JObj example_document)),
                          Reply 200 (Some (JObj example_document))]) 7 (Some [3]) None []))) \<and>
   (\<exists>document current_doc written.
      fst (fetch_paperless_document
             (test_env [Reply 200 (Some (JObj example_document)),
                        Reply 200 (Some (JObj example_document)),
                        Reply 200 (Some (JObj example_document))]) 7 []) = Inr document \<and>
      fst (fetch_paperless_document
             (test_env [Reply 200 (Some (JObj example_document)),
                        Reply 200 (Some (JObj example_document)),
                        Reply 200 (Some (JObj example_document))]) 7
             ([] @ [http_get (PaperlessDocument 7) PaperlessHeaders []])) = Inr (JObj current_doc) \<and>
      sent_since []
        (snd (tool_update_document_tags
               (test_env [Reply 200 (Some (JObj example_document)),
                          Reply 200 (Some (JObj example_document)),
                          Reply 200 (Some (JObj example_document))]) 7 (Some [3]) None [])) =
        [http_get (PaperlessDocument 7) PaperlessHeaders [],
         http_get (PaperlessDocument 7) PaperlessHeaders [],
         http_put (PaperlessDocument 7) PaperlessHeaders (JObj written)])"
proof -
  let ?down = "test_env [NoReply ''Connection timed out'']"
  let ?up = "test_env [Reply 200 (Some (JObj example_document)),
                       Reply 200 (Some (JObj example_document)),
                       Reply 200 (Some (JObj example_document))]"
  have failed: "fst (fetch_paperless_document ?down 7 []) =
     Inl (HTTPException 500 ''Error fetching document: Connection timed out'')"
    by (simp add: client_defs test_defs)
  have msg: "exc_text ?down (HTTPException 500 ''Error fetching document: Connection timed out'') =
     ''Error fetching document: Connection timed out''"
    by (simp add: test_defs)
  have put: "list_ex (\<lambda>req. req_method req = PUT)
     (sent_since [] (snd (tool_update_document_tags ?up 7 (Some [3]) None [])))"
    by (simp add: handler_defs client_defs test_defs)
  from update_tags_fetch_before_write[of ?down 7 "[]"
         "HTTPException 500 ''Error fetching document: Connection timed out''" "Some [3]" None]
    failed msg
  have first: "tool_update_document_tags ?down 7 (Some [3]) None [] =
     (Inr [(''success'', JBool False),
           (''error'', JStr ''Error fetching document: Connection timed out''),
           (''document_id'', JInt 7)],
      [http_get (PaperlessDocument 7) PaperlessHeaders []])"
    by simp
  from update_tags_fetch_before_write[of ?up 7 "[]" _ "Some [3]" None] put
  have second: "\<exists>document current_doc written.
      fst (fetch_paperless_document ?up 7 []) = Inr document \<and>
      fst (fetch_paperless_document ?up 7 ([] @ [http_get (PaperlessDocument 7) PaperlessHeaders []])) =
        Inr (JObj current_doc) \<and>
      sent_since [] (snd (tool_update_document_tags ?up 7 (Some [3]) None [])) =
        [http_get (PaperlessDocument 7) PaperlessHeaders [],
         http_get (PaperlessDocument 7) PaperlessHeaders [],
         http_put (PaperlessDocument 7) PaperlessHeaders (JObj written)]"
    by blast
  from failed first put second show ?thesis by blast
qed

subsection \<open>Adding and removing tags\<close>

lemma list_contains_iff: "list_contains xs x \<longleftrightarrow> (\<exists>el\<in>set xs. py_eq el x)"
  by (simp add: list_contains_def list_ex_iff)

lemma py_eq_JInt_left: "py_eq (JInt r) e \<longleftrightarrow> py_eq e (JInt r)"
  by (cases e) auto

lemma py_eq_JInt_unique: "py_eq e (JInt u) \<Longrightarrow> py_eq e (JInt r) \<Longrightarrow> r = u"
  by (cases e) (auto split: if_splits)

lemma add_tags_loop_list:
  "\<exists>ys. add_tags_loop add (JList xs) = Inr (JList ys) \<and>
        (\<forall>u. list_contains ys (JInt u) \<longleftrightarrow> list_contains xs (JInt u) \<or> u \<in> set add)"
proof (induction add arbitrary: xs)
  case Nil
  then show ?case by simp
next
  case (Cons t add)
  show ?case
  proof (cases "list_contains xs (JInt t)")
    case True
    from Cons.IH[of xs] obtain ys where
      ys: "add_tags_loop add (JList xs) = Inr (JList ys)"
      and mem: "\<And>u. list_contains ys (JInt u) \<longleftrightarrow> list_contains xs (JInt u) \<or> u \<in> set add"
      by blast
    from True ys have "add_tags_loop (t # add) (JList xs) = Inr (JList ys)" by simp
    moreover from True mem
    have "list_contains ys (JInt u) \<longleftrightarrow> list_contains xs (JInt u) \<or> u \<in> set (t # add)" for u
      by auto
    ultimately show ?thesis by blast
  next
    case False
    from Cons.IH[of "xs @ [JInt t]"] obtain ys where
      ys: "add_tags_loop add (JList (xs @ [JInt t])) = Inr (JList ys)"
      and mem: "\<And>u. list_contains ys (JInt u) \<longleftrightarrow> list_contains (xs @ [JInt t]) (JInt u) \<or> u \<in> set add"
      by blast
    from False ys have "add_tags_loop (t # add) (JList xs) = Inr (JList ys)" by simp
    moreover
    have "list_contains ys (JInt u) \<longleftrightarrow> list_contains xs (JInt u) \<or> u \<in> set (t # add)" for u
      unfolding mem by (auto simp: list_contains_iff)
    ultimately show ?thesis by blast
  qed
qed

lemma remove_tags_filter_list:
  "\<exists>ws. remove_tags_filter remove (JList ys) = Inr (JList ws) \<and>
        (\<forall>u. list_contains ws (JInt u) \<longleftrightarrow> list_contains ys (JInt u) \<and> u \<notin> set remove)"
proof -
  let ?ws = "filter (\<lambda>tag_id. \<not> list_contains (map JInt remove) tag_id) ys"
  have "remove_tags_filter remove (JList ys) = Inr (JList ?ws)"
    by (simp add: remove_tags_filter_def bind_exc_def)
  moreover have "list_contains ?ws (JInt u) \<longleftrightarrow> list_contains ys (JInt u) \<and> u \<notin> set remove" for u
  proof
    assume "list_contains ?ws (JInt u)"
    then obtain e where e: "e \<in> set ys" "py_eq e (JInt u)"
      and keep: "\<not> list_contains (map JInt remove) e"
      by (auto simp: list_contains_iff)
    from keep e(2) have "u \<notin> set remove"
      by (auto simp: list_contains_iff py_eq_JInt_left)
    with e show "list_contains ys (JInt u) \<and> u \<notin> set remove"
      by (auto simp: list_contains_iff)
  next
    assume a: "list_contains ys (JInt u) \<and> u \<notin> set remove"
    then obtain e where e: "e \<in> set ys" "py_eq e (JInt u)"
      by (auto simp: list_contains_iff)
    have "\<not> list_contains (map JInt remove) e"
    proof
      assume "list_contains (map JInt remove) e"
      then obtain r where "r \<in> set remove" "py_eq e (JInt r)"
        by (auto simp: list_contains_iff py_eq_JInt_left)
      with e(2) a show False using py_eq_JInt_unique by blast
    qed
    with e show "list_contains ?ws (JInt u)"
      by (auto simp: list_contains_iff)
  qed
  ultimately show ?thesis by blast
qed

lemma new_tag_list_list:
  assumes "py_get document ''tags'' (JList []) = Inr (JList cur)"
  shows "\<exists>ws. new_tag_list document add_tags remove_tags = Inr (JList ws) \<and>
           (\<forall>u. list_contains ws (JInt u) \<longleftrightarrow>
                  (list_contains cur (JInt u) \<or> u \<in> set (opt_list add_tags)) \<and>
                  u \<notin> set (opt_list remove_tags))"
proof -
  from add_tags_loop_list[of "opt_list add_tags" cur] obtain ys where
    ys: "add_tags_loop (opt_list add_tags) (JList cur) = Inr (JList ys)"
    and mem_ys: "\<And>u. list_contains ys (JInt u) \<longleftrightarrow>
                   list_contains cur (JInt u) \<or> u \<in> set (opt_list add_tags)"
    by blast
  have added: "(if opt_list add_tags \<noteq> [] then add_tags_loop (opt_list add_tags) (JList cur)
                else Inr (JList cur)) = Inr (JList ys)"
    using ys by (cases "opt_list add_tags") auto
  from remove_tags_filter_list[of "opt_list remove_tags" ys] obtain ws where
    ws: "remove_tags_filter (opt_list remove_tags) (JList ys) = Inr (JList ws)"
    and mem_ws: "\<And>u. list_contains ws (JInt u) \<longleftrightarrow>
                   list_contains ys (JInt u) \<and> u \<notin> set (opt_list remove_tags)"
    by blast
  show ?thesis
  proof (cases "opt_list remove_tags = []")
    case True
    with assms added have "new_tag_list document add_tags remove_tags = Inr (JList ys)"
      by (simp add: new_tag_list_def bind_exc_def)
    with True mem_ys show ?thesis by auto
  next
    case False
    with assms added ws have "new_tag_list document add_tags remove_tags = Inr (JList ws)"
      by (simp add: new_tag_list_def bind_exc_def)
    with mem_ws mem_ys show ?thesis by auto
  qed
qed

lemma map_of_dict_merge_single: "map_of (dict_merge d [(k, v)]) k = Some v"
  by (simp add: dict_merge_def map_of_dict_set)

text \<open>
  Claim C9. Removal takes precedence over addition. For a fetched document whose tags
  are a list, the tool computes a tag list in which a tag identifier that is in both
  \<open>add_tags\<close> and \<open>remove_tags\<close> does not occur, a tag identifier that is only in
  \<open>add_tags\<close> occurs, and a tag identifier in neither list occurs exactly if it occurred
  in the document; and every write the tool sends carries this list as the document's
  tags. Membership is Python's \<open>in\<close>.
\<close>

theorem update_tags_removal_wins:
  assumes "fst (fetch_paperless_document env document_id log) = Inr document"
      and "py_get document ''tags'' (JList []) = Inr (JList cur)"
  shows "\<exists>ws. new_tag_list document add_tags remove_tags = Inr (JList ws) \<and>
           (\<forall>t. t \<in> set (opt_list add_tags) \<and> t \<in> set (opt_list remove_tags) \<longrightarrow>
                  \<not> list_contains ws (JInt t)) \<and>
           (\<forall>t. t \<in> set (opt_list add_tags) \<and> t \<notin> set (opt_list remove_tags) \<longrightarrow>
                  list_contains ws (JInt t)) \<and>
           (\<forall>t. t \<notin> set (opt_list add_tags) \<and> t \<notin> set (opt_list remove_tags) \<longrightarrow>
                  list_contains ws (JInt t) = list_contains cur (JInt t)) \<and>
           (\<forall>req \<in> set (sent_since log
                (snd (tool_update_document_tags env document_id add_tags remove_tags log))).
              req_method req = PUT \<longrightarrow>
                (\<exists>written. req_json req = Some (JObj written) \<and>
                            map_of written ''tags'' = Some (JList ws)))"
proof -
  from new_tag_list_list[OF assms(2), of add_tags remove_tags] obtain ws where
    ws: "new_tag_list document add_tags remove_tags = Inr (JList ws)"
    and mem: "\<And>u. list_contains ws (JInt u) \<longleftrightarrow>
                  (list_contains cur (JInt u) \<or> u \<in> set (opt_list add_tags)) \<and>
                  u \<notin> set (opt_list remove_tags)"
    by blast
  let ?get = "http_get (PaperlessDocument document_id) PaperlessHeaders []"
  let ?log' = "snd (tool_update_document_tags env document_id add_tags remove_tags log)"
  have log': "?log' = snd (update_paperless_document env document_id [(''tags'', JList ws)] (log @ [?get]))"
    using assms(1) ws by (simp add: tool_update_document_tags_log)
  have written: "\<exists>written. req_json req = Some (JObj written) \<and>
                            map_of written ''tags'' = Some (JList ws)"
    if "req \<in> set (sent_since log ?log')" and "req_method req = PUT" for req
    using that unfolding log' update_paperless_document_log
    by (auto simp: sent_since_def http_get_def http_put_def map_of_dict_merge_single
             split: sum.splits json.splits)
  from ws mem written show ?thesis by blast
qed


text \<open>
  A document with the tags 1 and 2, to which 3 and 4 are added and from which 3 and 1
  are removed: the tags written are 2 and 4.
\<close>

theorem update_tags_removal_wins_witness:
  "fst (fetch_paperless_document
          (test_env [Reply 200 (Some (JObj example_document)),
                     Reply 200 (Some (JObj example_document)),
                     Reply 200 (Some JNull)]) 7 []) = Inr (JObj example_document) \<and>
   py_get (JObj example_document) ''tags'' (JList []) = Inr (JList [JInt 1, JInt 2]) \<and>
   new_tag_list (JObj example_document) (Some [3, 4]) (Some [3, 1]) = Inr (JList [JInt 2, JInt 4]) \<and>
   \<not> list_contains [JInt 2, JInt 4] (JInt 3) \<and>
   list_contains [JInt 2, JInt 4] (JInt 4) \<and>
   list_contains [JInt 2, JInt 4] (JInt 2) = list_contains [JInt 1, JInt 2] (JInt 2) \<and>
   sent_since []
     (snd (tool_update_document_tags
            (test_env [Reply 200 (Some (JObj example_document)),
                       Reply 200 (Some (JObj example_document)),
                       Reply 200 (Some JNull)]) 7 (Some [3, 4]) (Some [3, 1]) [])) =
     [http_get (PaperlessDocument 7) PaperlessHeaders [],
      http_get (PaperlessDocument 7) PaperlessHeaders [],
      http_put (PaperlessDocument 7) PaperlessHeaders
        (JObj [(''title'', JStr ''A''), (''tags'', JList [JInt 2, JInt 4]),
               (''correspondent'', JInt 5)])]"
proof -
  let ?env = "test_env [Reply 200 (Some (JObj example_document)),
                        Reply 200 (Some (JObj example_document)),
                        Reply 200 (Some JNull)]"
  have fetched: "fst (fetch_paperless_document ?env 7 []) = Inr (JObj example_document)"
    by (simp add: client_defs test_defs)
  have tags: "py_get (JObj example_document) ''tags'' (JList []) = Inr (JList [JInt 1, JInt 2])"
    by (simp add: example_document_def)
  have new: "new_tag_list (JObj example_document) (Some [3, 4]) (Some [3, 1]) =
      Inr (JList [JInt 2, JInt 4])"
    by (simp add: handler_defs bind_exc_def example_document_def)
  have sent: "sent_since [] (snd (tool_update_document_tags ?env 7 (Some [3, 4]) (Some [3, 1]) [])) =
     [http_get (PaperlessDocument 7) PaperlessHeaders [],
      http_get (PaperlessDocument 7) PaperlessHeaders [],
      http_put (PaperlessDocument 7) PaperlessHeaders
        (JObj [(''title'', JStr ''A''), (''tags'', JList [JInt 2, JInt 4]),
               (''correspondent'', JInt 5)])]"
    by (simp add: handler_defs client_defs test_defs)
  from update_tags_removal_wins[OF fetched tags, of "Some [3, 4]" "Some [3, 1]"] new
  have "\<not> list_contains [JInt 2, JInt 4] (JInt 3)"
    and "list_contains [JInt 2, JInt 4] (JInt 4)"
    and "list_contains [JInt 2, JInt 4] (JInt 2) = list_contains [JInt 1, JInt 2] (JInt 2)"
    by (auto simp: list_contains_def)
  with fetched tags new sent show ?thesis by blast
qed

subsection \<open>Handlers never raise\<close>

lemma except_Exception_cases:
  "except_Exception r h = Inr (case r of Inl e \<Rightarrow> h e | Inr v \<Rightarrow> v)"
  by (simp add: except_Exception_def split: sum.splits)

lemma tool_trigger_workflow_try_success:
  "fst (tool_trigger_workflow_try env workflow_id document_id additional_data log) = Inr r \<Longrightarrow>
     map_of r ''success'' = Some (JBool True)"
  by (auto simp: tool_trigger_workflow_try_def Let_def split: prod.splits sum.splits)

lemma tool_update_document_tags_try_success:
  "fst (tool_update_document_tags_try env document_id add_tags remove_tags log) = Inr r \<Longrightarrow>
     map_of r ''success'' = Some (JBool True)"
  by (auto simp: tool_update_document_tags_try_def bind_exc_def split: prod.splits sum.splits)

lemma tool_analyze_document_try_success:
  "fst (tool_analyze_document_try env document_id update_automatically log) = Inr r \<Longrightarrow>
     map_of r ''success'' = Some (JBool True)"
  unfolding tool_analyze_document_try_def
  by (auto simp: bind_exc_def split: prod.splits sum.splits)

lemma tool_search_similar_documents_try_success:
  "fst (tool_search_similar_documents_try env document_id max_results log) = Inr r \<Longrightarrow>
     map_of r ''success'' = Some (JBool True)"
  unfolding tool_search_similar_documents_try_def
  by (auto simp: bind_exc_def split: prod.splits sum.splits)

lemma tool_result_cases:
  assumes "\<And>r. t = Inr r \<Longrightarrow> map_of r ''success'' = Some (JBool True)"
  shows "\<exists>r. except_Exception t (\<lambda>e. (''success'', JBool False) # (''error'', JStr (msg_of e)) # rest) = Inr r \<and>
           (map_of r ''success'' = Some (JBool True) \<or>
            map_of r ''success'' = Some (JBool False) \<and> (\<exists>e. map_of r ''error'' = Some (JStr (msg_of e))))"
  using assms by (cases t) (auto simp: except_Exception_def)

text \<open>
  Claim C6. No handler raises: every resource and tool invocation returns a dictionary.
  A resource returns its data under its own field when the client call succeeds, and
  otherwise the text of the error under \<open>error\<close> together with its field holding an
  empty collection (the single-document resource holds \<open>None\<close> there). A tool returns a
  dictionary whose \<open>success\<close> is \<open>True\<close>, or one whose \<open>success\<close> is \<open>False\<close> and
  which carries the text of the error under \<open>error\<close>.
\<close>

theorem handlers_return_structured_results:
  "fst (get_documents env query tag_id correspondent_id document_type_id created_after
          created_before limit log) =
     (case fst (fetch_paperless_documents env query tag_id correspondent_id document_type_id
                  created_after created_before limit log) of
        Inl e \<Rightarrow> Inr [(''error'', JStr (exc_text env e)), (''documents'', JList [])]
      | Inr documents \<Rightarrow> Inr [(''documents'', documents)]) \<and>
   fst (get_document env document_id log) =
     (case fst (fetch_paperless_document env document_id log) of
        Inl e \<Rightarrow> Inr [(''error'', JStr (exc_text env e)), (''document'', JNull)]
      | Inr document \<Rightarrow> Inr [(''document'', document)]) \<and>
   fst (get_tags env log) =
     (case fst (fetch_paperless_tags env log) of
        Inl e \<Rightarrow> Inr [(''error'', JStr (exc_text env e)), (''tags'', JList [])]
      | Inr tags \<Rightarrow> Inr [(''tags'', tags)]) \<and>
   fst (get_correspondents env log) =
     (case fst (fetch_paperless_correspondents env log) of
        Inl e \<Rightarrow> Inr [(''error'', JStr (exc_text env e)), (''correspondents'', JList [])]
      | Inr correspondents \<Rightarrow> Inr [(''correspondents'', correspondents)]) \<and>
   fst (get_document_types env log) =
     (case fst (fetch_paperless_document_types env log) of
        Inl e \<Rightarrow> Inr [(''error'', JStr (exc_text env e)), (''document_types'', JList [])]
      | Inr document_types \<Rightarrow> Inr [(''document_types'', document_types)]) \<and>
   fst (get_workflows env log) =
     (case fst (fetch_n8n_workflows env log) of
        Inl e \<Rightarrow> Inr [(''error'', JStr (exc_text env e)), (''workflows'', JList [])]
      | Inr workflows \<Rightarrow> Inr [(''workflows'', workflows)]) \<and>
   (\<exists>r. fst (tool_trigger_workflow env workflow_id document_id additional_data log) = Inr r \<and>
        (map_of r ''success'' = Some (JBool True) \<or>
         map_of r ''success'' = Some (JBool False) \<and>
         (\<exists>e. map_of r ''error'' = Some (JStr (exc_text env e))))) \<and>
   (\<exists>r. fst (tool_update_document_tags env document_id add_tags remove_tags log) = Inr r \<and>
        (map_of r ''success'' = Some (JBool True) \<or>
         map_of r ''success'' = Some (JBool False) \<and>
         (\<exists>e. map_of r ''error'' = Some (JStr (exc_text env e))))) \<and>
   (\<exists>r. fst (tool_analyze_document env document_id update_automatically log) = Inr r \<and>
        (map_of r ''success'' = Some (JBool True) \<or>
         map_of r ''success'' = Some (JBool False) \<and>
         (\<exists>e. map_of r ''error'' = Some (JStr (exc_text env e))))) \<and>
   (\<exists>r. fst (tool_search_similar_documents env document_id max_results log) = Inr r \<and>
        (map_of r ''success'' = Some (JBool True) \<or>
         map_of r ''success'' = Some (JBool False) \<and>
         (\<exists>e. map_of r ''error'' = Some (JStr (exc_text env e)))))"
proof (intro conjI)
  show "fst (get_documents env query tag_id correspondent_id document_type_id created_after
          created_before limit log) =
     (case fst (fetch_paperless_documents env query tag_id correspondent_id document_type_id
                  created_after created_before limit log) of
        Inl e \<Rightarrow> Inr [(''error'', JStr (exc_text env e)), (''documents'', JList [])]
      | Inr documents \<Rightarrow> Inr [(''documents'', documents)])"
    by (simp add: get_documents_def split_beta except_Exception_def bind_exc_def split: sum.splits)
  show "fst (get_document env document_id log) =
     (case fst (fetch_paperless_document env document_id log) of
        Inl e \<Rightarrow> Inr [(''error'', JStr (exc_text env e)), (''document'', JNull)]
      | Inr document \<Rightarrow> Inr [(''document'', document)])"
    by (simp add: get_document_def split_beta except_Exception_def bind_exc_def split: sum.splits)
  show "fst (get_tags env log) =
     (case fst (fetch_paperless_tags env log) of
        Inl e \<Rightarrow> Inr [(''error'', JStr (exc_text env e)), (''tags'', JList [])]
      | Inr tags \<Rightarrow> Inr [(''tags'', tags)])"
    by (simp add: get_tags_def split_beta except_Exception_def bind_exc_def split: sum.splits)
  show "fst (get_correspondents env log) =
     (case fst (fetch_paperless_correspondents env log) of
        Inl e \<Rightarrow> Inr [(''error'', JStr (exc_text env e)), (''correspondents'', JList [])]
      | Inr correspondents \<Rightarrow> Inr [(''correspondents'', correspondents)])"
    by (simp add: get_correspondents_def split_beta except_Exception_def bind_exc_def split: sum.splits)
  show "fst (get_document_types env log) =
     (case fst (fetch_paperless_document_types env log) of
        Inl e \<Rightarrow> Inr [(''error'', JStr (exc_text env e)), (''document_types'', JList [])]
      | Inr document_types \<Rightarrow> Inr [(''document_types'', document_types)])"
    by (simp add: get_document_types_def split_beta except_Exception_def bind_exc_def split: sum.splits)
  show "fst (get_workflows env log) =
     (case fst (fetch_n8n_workflows env log) of
        Inl e \<Rightarrow> Inr [(''error'', JStr (exc_text env e)), (''workflows'', JList [])]
      | Inr workflows \<Rightarrow> Inr [(''workflows'', workflows)])"
    by (simp add: get_workflows_def split_beta except_Exception_def bind_exc_def split: sum.splits)
  show "\<exists>r. fst (tool_trigger_workflow env workflow_id document_id additional_data log) = Inr r \<and>
        (map_of r ''success'' = Some (JBool True) \<or>
         map_of r ''success'' = Some (JBool False) \<and>
         (\<exists>e. map_of r ''error'' = Some (JStr (exc_text env e))))"
    using tool_result_cases[where msg_of = "exc_text env", OF tool_trigger_workflow_try_success]
    by (simp add: tool_trigger_workflow_def split_beta)
  show "\<exists>r. fst (tool_update_document_tags env document_id add_tags remove_tags log) = Inr r \<and>
        (map_of r ''success'' = Some (JBool True) \<or>
         map_of r ''success'' = Some (JBool False) \<and>
         (\<exists>e. map_of r ''error'' = Some (JStr (exc_text env e))))"
    using tool_result_cases[where msg_of = "exc_text env", OF tool_update_document_tags_try_success]
    by (simp add: tool_update_document_tags_def split_beta)
  show "\<exists>r. fst (tool_analyze_document env document_id update_automatically log) = Inr r \<and>
        (map_of r ''success'' = Some (JBool True) \<or>
         map_of r ''success'' = Some (JBool False) \<and>
         (\<exists>e. map_of r ''error'' = Some (JStr (exc_text env e))))"
    using tool_result_cases[where msg_of = "exc_text env", OF tool_analyze_document_try_success]
    by (simp add: tool_analyze_document_def split_beta)
  show "\<exists>r. fst (tool_search_similar_documents env document_id max_results log) = Inr r \<and>
        (map_of r ''success'' = Some (JBool True) \<or>
         map_of r ''success'' = Some (JBool False) \<and>
         (\<exists>e. map_of r ''error'' = Some (JStr (exc_text env e))))"
    using tool_result_cases[where msg_of = "exc_text env", OF tool_search_similar_documents_try_success]
    by (simp add: tool_search_similar_documents_def split_beta)
qed


text \<open>
  Listing resources and a tool against an upstream that times out or answers 503, and
  a listing that succeeds.
\<close>

theorem handlers_return_structured_results_witness:
  "fst (fetch_paperless_tags (test_env [NoReply ''Connection timed out'']) []) =
     Inl (HTTPException 500 ''Error fetching tags: Connection timed out'') \<and>
   fst (get_tags (test_env [NoReply ''Connection timed out'']) []) =
     Inr [(''error'', JStr ''Error fetching tags: Connection timed out''), (''tags'', JList [])] \<and>
   fst (get_documents (test_env [NoReply ''Connection timed out''])
          (JStr ''invoice'') JNull JNull JNull JNull JNull 100 []) =
     Inr [(''error'', JStr ''Error fetching documents: Connection timed out''),
          (''documents'', JList [])] \<and>
   fst (get_workflows (test_env [Reply 503 None]) []) =
     Inr [(''error'', JStr ''Error fetching workflows: 503 Server Error: Service Unavailable for url''),
          (''workflows'', JList [])] \<and>
   fst (get_tags (test_env [Reply 200 (Some (JObj [(''results'', JList [])]))]) []) =
     Inr [(''tags'', JList [])] \<and>
   fst (tool_analyze_document (test_env [NoReply ''Connection timed out'']) 7 True []) =
     Inr [(''success'', JBool False),
          (''error'', JStr ''Error fetching document: Connection timed out''),
          (''document_id'', JInt 7)]"
proof -
  let ?down = "test_env [NoReply ''Connection timed out'']"
  have tags: "fst (fetch_paperless_tags ?down []) =
     Inl (HTTPException 500 ''Error fetching tags: Connection timed out'')"
    and docs: "fst (fetch_paperless_documents ?down (JStr ''invoice'') JNull JNull JNull JNull JNull 100 []) =
     Inl (HTTPException 500 ''Error fetching documents: Connection timed out'')"
    and flows: "fst (fetch_n8n_workflows (test_env [Reply 503 None]) []) =
     Inl (HTTPException 500 ''Error fetching workflows: 503 Server Error: Service Unavailable for url'')"
    and ok: "fst (fetch_paperless_tags (test_env [Reply 200 (Some (JObj [(''results'', JList [])]))]) []) =
     Inr (JList [])"
    by (simp_all add: client_defs test_defs)
  have msgs: "exc_text ?down = exception_text" "exc_text (test_env [Reply 503 None]) = exception_text"
    by (simp_all add: test_env_def)
  have tool: "fst (tool_analyze_document ?down 7 True []) =
     Inr [(''success'', JBool False),
          (''error'', JStr ''Error fetching document: Connection timed out''),
          (''document_id'', JInt 7)]"
    by (simp add: handler_defs client_defs test_defs)
  note a = handlers_return_structured_results[where env = ?down and log = "[]"
      and query = "JStr ''invoice''" and tag_id = JNull and correspondent_id = JNull
      and document_type_id = JNull and created_after = JNull and created_before = JNull
      and limit = 100]
  note b = handlers_return_structured_results[where env = "test_env [Reply 503 None]" and log = "[]"]
  note c = handlers_return_structured_results[
      where env = "test_env [Reply 200 (Some (JObj [(''results'', JList [])]))]" and log = "[]"]
  from a tags docs msgs have
    "fst (get_tags ?down []) =
       Inr [(''error'', JStr ''Error fetching tags: Connection timed out''), (''tags'', JList [])]"
    "fst (get_documents ?down (JStr ''invoice'') JNull JNull JNull JNull JNull 100 []) =
       Inr [(''error'', JStr ''Error fetching documents: Connection timed out''),
            (''documents'', JList [])]"
    by simp_all
  moreover from b flows msgs have
    "fst (get_workflows (test_env [Reply 503 None]) []) =
       Inr [(''error'', JStr ''Error fetching workflows: 503 Server Error: Service Unavailable for url''),
            (''workflows'', JList [])]"
    by simp
  moreover from c ok have
    "fst (get_tags (test_env [Reply 200 (Some (JObj [(''results'', JList [])]))]) []) =
       Inr [(''tags'', JList [])]"
    by simp
  ultimately show ?thesis using tags tool by blast
qed

subsection \<open>Similar documents\<close>

lemma exclude_reference_filter:
  "exclude_reference docs document_id = Inr kept \<Longrightarrow>
     kept = filter (\<lambda>doc. case py_getitem doc ''id'' of
                            Inl e \<Rightarrow> False
                          | Inr doc_id \<Rightarrow> \<not> py_eq doc_id (JInt document_id)) docs"
proof (induction docs arbitrary: kept)
  case Nil
  then show ?case by simp
next
  case (Cons doc docs)
  then show ?case
    by (auto split: sum.splits if_splits)
qed

lemma exclude_reference_total:
  "(\<forall>doc\<in>set docs. \<exists>doc_id. py_getitem doc ''id'' = Inr doc_id) \<Longrightarrow>
     \<exists>kept. exclude_reference docs document_id = Inr kept"
  by (induction docs) auto

lemma subseq_take_left: "subseq (take n xs) xs"
proof -
  have "subseq (take n xs) (take n xs @ drop n xs)" by (rule subseq_rev_drop_many) simp
  then show ?thesis by simp
qed

lemma similar_documents_shape:
  assumes "0 \<le> max_results"
      and "similar_documents (JList docs) document_id max_results = Inr res"
  shows "res = take (nat max_results)
                 (filter (\<lambda>doc. case py_getitem doc ''id'' of
                                   Inl e \<Rightarrow> False
                                 | Inr doc_id \<Rightarrow> \<not> py_eq doc_id (JInt document_id)) docs)"
    and "\<forall>doc\<in>set res. \<exists>doc_id. py_getitem doc ''id'' = Inr doc_id \<and> \<not> py_eq doc_id (JInt document_id)"
    and "int (length res) \<le> max_results"
    and "subseq res docs"
proof -
  let ?keep = "\<lambda>doc. case py_getitem doc ''id'' of
                        Inl e \<Rightarrow> False
                      | Inr doc_id \<Rightarrow> \<not> py_eq doc_id (JInt document_id)"
  from assms(2) obtain kept where kept: "exclude_reference docs document_id = Inr kept"
    and res: "res = py_slice_to kept max_results"
    by (auto simp: similar_documents_def bind_exc_def split: sum.splits)
  from exclude_reference_filter[OF kept] res assms(1)
  show eq: "res = take (nat max_results) (filter ?keep docs)"
    by (simp add: py_slice_to_def)
  have sub: "set res \<subseteq> set (filter ?keep docs)"
    unfolding eq by (rule set_take_subset)
  show "\<forall>doc\<in>set res. \<exists>doc_id. py_getitem doc ''id'' = Inr doc_id \<and> \<not> py_eq doc_id (JInt document_id)"
  proof
    fix doc
    assume "doc \<in> set res"
    with sub have "?keep doc" by auto
    then show "\<exists>doc_id. py_getitem doc ''id'' = Inr doc_id \<and> \<not> py_eq doc_id (JInt document_id)"
      by (cases "py_getitem doc ''id''") auto
  qed
  from assms(1) show "int (length res) \<le> max_results"
    unfolding eq by simp
  have "subseq res (filter ?keep docs)"
    unfolding eq by (rule subseq_take_left)
  also have "subseq (filter ?keep docs) docs" by simp
  finally show "subseq res docs" .
qed

lemma tool_search_similar_documents_listed:
  assumes "fetch_paperless_document env document_id log = (Inr reference_doc, log1)"
      and "py_get reference_doc ''correspondent'' JNull = Inr correspondent_id"
      and "py_get reference_doc ''document_type'' JNull = Inr document_type"
      and "fst (fetch_paperless_documents env JNull JNull correspondent_id document_type
                  JNull JNull (max_results + 1) log1) = Inr similar_docs"
  shows "\<exists>tags. fst (tool_search_similar_documents env document_id max_results log) =
           (case similar_documents similar_docs document_id max_results of
              Inl e \<Rightarrow> Inr [(''success'', JBool False), (''error'', JStr (exc_text env e)),
                             (''reference_document_id'', JInt document_id)]
            | Inr res \<Rightarrow> Inr [(''success'', JBool True),
                               (''reference_document_id'', JInt document_id),
                               (''similar_documents'', JList res),
                               (''similarity_criteria'',
                                JObj [(''correspondent_id'', correspondent_id),
                                      (''document_type'', document_type),
                                      (''tags'', tags)])])"
proof -
  from assms(2) obtain d where d: "reference_doc = JObj d" by (cases reference_doc) auto
  then obtain tags where tags: "py_get reference_doc ''tags'' (JList []) = Inr tags" by simp
  obtain r log2 where f: "fetch_paperless_documents env JNull JNull correspondent_id document_type
                  JNull JNull (max_results + 1) log1 = (r, log2)"
    by (cases "fetch_paperless_documents env JNull JNull correspondent_id document_type
                  JNull JNull (max_results + 1) log1")
  with assms(4) have r: "r = Inr similar_docs" by simp
  have "fst (tool_search_similar_documents env document_id max_results log) =
           (case similar_documents similar_docs document_id max_results of
              Inl e \<Rightarrow> Inr [(''success'', JBool False), (''error'', JStr (exc_text env e)),
                             (''reference_document_id'', JInt document_id)]
            | Inr res \<Rightarrow> Inr [(''success'', JBool True),
                               (''reference_document_id'', JInt document_id),
                               (''similar_documents'', JList res),
                               (''similarity_criteria'',
                                JObj [(''correspondent_id'', correspondent_id),
                                      (''document_type'', document_type),
                                      (''tags'', tags)])])"
    using assms(1-3) tags f r
    by (simp add: tool_search_similar_documents_def tool_search_similar_documents_try_def
          bind_exc_def except_Exception_def split: sum.splits)
  then show ?thesis by blast
qed

text \<open>
  Claim C4, as amended: for a non-negative \<open>max_results\<close>. When the reference document
  and the filtered listing are fetched and the listing is a list \<open>docs\<close>, the tool either
  reports the error of a listed document that has no \<open>id\<close>, or returns as similar
  documents the first \<open>max_results\<close> of those elements of \<open>docs\<close> whose \<open>id\<close> differs from
  the reference identifier: no returned document has the reference identifier, there
  are at most \<open>max_results\<close> of them, and they stand in the order of \<open>docs\<close>.
\<close>

theorem similar_documents_result_shape:
  assumes "0 \<le> max_results"
      and "fetch_paperless_document env document_id log = (Inr reference_doc, log1)"
      and "py_get reference_doc ''correspondent'' JNull = Inr correspondent_id"
      and "py_get reference_doc ''document_type'' JNull = Inr document_type"
      and "fst (fetch_paperless_documents env JNull JNull correspondent_id document_type
                  JNull JNull (max_results + 1) log1) = Inr (JList docs)"
  shows "(\<exists>e. fst (tool_search_similar_documents env document_id max_results log) =
            Inr [(''success'', JBool False), (''error'', JStr (exc_text env e)),
                 (''reference_document_id'', JInt document_id)] \<and>
            \<not> (\<forall>doc\<in>set docs. \<exists>doc_id. py_getitem doc ''id'' = Inr doc_id)) \<or>
         (\<exists>res criteria.
            fst (tool_search_similar_documents env document_id max_results log) =
              Inr [(''success'', JBool True), (''reference_document_id'', JInt document_id),
                   (''similar_documents'', JList res), (''similarity_criteria'', criteria)] \<and>
            res = take (nat max_results)
                    (filter (\<lambda>doc. case py_getitem doc ''id'' of
                                      Inl e \<Rightarrow> False
                                    | Inr doc_id \<Rightarrow> \<not> py_eq doc_id (JInt document_id)) docs) \<and>
            (\<forall>doc\<in>set res. \<exists>doc_id. py_getitem doc ''id'' = Inr doc_id \<and>
                                      \<not> py_eq doc_id (JInt document_id)) \<and>
            int (length res) \<le> max_results \<and>
            subseq res docs)"
proof -
  from tool_search_similar_documents_listed[OF assms(2-5)] obtain tags where
    tool: "fst (tool_search_similar_documents env document_id max_results log) =
           (case similar_documents (JList docs) document_id max_results of
              Inl e \<Rightarrow> Inr [(''success'', JBool False), (''error'', JStr (exc_text env e)),
                             (''reference_document_id'', JInt document_id)]
            | Inr res \<Rightarrow> Inr [(''success'', JBool True),
                               (''reference_document_id'', JInt document_id),
                               (''similar_documents'', JList res),
                               (''similarity_criteria'',
                                JObj [(''correspondent_id'', correspondent_id),
                                      (''document_type'', document_type),
                                      (''tags'', tags)])])"
    by blast
  show ?thesis
  proof (cases "similar_documents (JList docs) document_id max_results")
    case (Inl e)
    have "\<not> (\<forall>doc\<in>set docs. \<exists>doc_id. py_getitem doc ''id'' = Inr doc_id)"
    proof
      assume "\<forall>doc\<in>set docs. \<exists>doc_id. py_getitem doc ''id'' = Inr doc_id"
      from exclude_reference_total[OF this, of document_id] Inl show False
        by (auto simp: similar_documents_def bind_exc_def)
    qed
    with tool Inl show ?thesis by auto
  next
    case (Inr res)
    from similar_documents_shape[OF assms(1) Inr] tool Inr show ?thesis
      by auto
  qed
qed


text \<open>
  The specification's example: reference 7, upstream listing 7, 8, 9, and
  \<open>max_results = 1\<close>.
\<close>

theorem similar_documents_result_shape_witness:
  "(0::int) \<le> 1 \<and>
   fetch_paperless_document
     (test_env [Reply 200 (Some (example_similar 7)),
                Reply 200 (Some (JObj [(''results'',
                  JList [example_similar 7, example_similar 8, example_similar 9])]))]) 7 [] =
     (Inr (example_similar 7), [http_get (PaperlessDocument 7) PaperlessHeaders []]) \<and>
   py_get (example_similar 7) ''correspondent'' JNull = Inr (JInt 3) \<and>
   py_get (example_similar 7) ''document_type'' JNull = Inr (JInt 2) \<and>
   fst (fetch_paperless_documents
          (test_env [Reply 200 (Some (example_similar 7)),
                     Reply 200 (Some (JObj [(''results'',
                       JList [example_similar 7, example_similar 8, example_similar 9])]))])
          JNull JNull (JInt 3) (JInt 2) JNull JNull (1 + 1)
          [http_get (PaperlessDocument 7) PaperlessHeaders []]) =
     Inr (JList [example_similar 7, example_similar 8, example_similar 9]) \<and>
   fst (tool_search_similar_documents
          (test_env [Reply 200 (Some (example_similar 7)),
                     Reply 200 (Some (JObj [(''results'',
                       JList [example_similar 7, example_similar 8, example_similar 9])]))]) 7 1 []) =
     Inr [(''success'', JBool True), (''reference_document_id'', JInt 7),
          (''similar_documents'', JList [example_similar 8]),
          (''similarity_criteria'',
           JObj [(''correspondent_id'', JInt 3), (''document_type'', JInt 2), (''tags'', JList [])])] \<and>
   int (length [example_similar 8]) \<le> 1 \<and>
   subseq [example_similar 8] [example_similar 7, example_similar 8, example_similar 9]"
proof -
  let ?env = "test_env [Reply 200 (Some (example_similar 7)),
                Reply 200 (Some (JObj [(''results'',
                  JList [example_similar 7, example_similar 8, example_similar 9])]))]"
  have le: "(0::int) \<le> 1" by simp
  have fetched: "fetch_paperless_document ?env 7 [] =
     (Inr (example_similar 7), [http_get (PaperlessDocument 7) PaperlessHeaders []])"
    by (simp add: client_defs test_defs)
  have c: "py_get (example_similar 7) ''correspondent'' JNull = Inr (JInt 3)"
    and d: "py_get (example_similar 7) ''document_type'' JNull = Inr (JInt 2)"
    by (simp_all add: example_similar_def)
  have listed: "fst (fetch_paperless_documents ?env JNull JNull (JInt 3) (JInt 2) JNull JNull (1 + 1)
          [http_get (PaperlessDocument 7) PaperlessHeaders []]) =
     Inr (JList [example_similar 7, example_similar 8, example_similar 9])"
    by (simp add: client_defs test_env_def scripted_upstream_def)
  have tool: "fst (tool_search_similar_documents ?env 7 1 []) =
     Inr [(''success'', JBool True), (''reference_document_id'', JInt 7),
          (''similar_documents'', JList [example_similar 8]),
          (''similarity_criteria'',
           JObj [(''correspondent_id'', JInt 3), (''document_type'', JInt 2), (''tags'', JList [])])]"
    by (simp add: handler_defs client_defs test_defs)
  from similar_documents_result_shape[OF le fetched c d listed]
  consider (failed) e where
      "fst (tool_search_similar_documents ?env 7 1 []) =
         Inr [(''success'', JBool False), (''error'', JStr (exc_text ?env e)),
              (''reference_document_id'', JInt 7)]"
    | (found) res criteria where
      "fst (tool_search_similar_documents ?env 7 1 []) =
         Inr [(''success'', JBool True), (''reference_document_id'', JInt 7),
              (''similar_documents'', JList res), (''similarity_criteria'', criteria)]"
      "int (length res) \<le> 1"
      "subseq res [example_similar 7, example_similar 8, example_similar 9]"
    by blast
  then have "int (length [example_similar 8]) \<le> 1 \<and>
     subseq [example_similar 8] [example_similar 7, example_similar 8, example_similar 9]"
  proof cases
    case failed
    with tool show ?thesis by simp
  next
    case found
    from found(1) tool have "res = [example_similar 8]" by simp
    with found(2,3) show ?thesis by simp
  qed
  with le fetched c d listed tool show ?thesis by blast
qed

text \<open>
  Claim C4 as stated fails for a negative \<open>max_results\<close>: with \<open>max_results = -1\<close> the
  slice \<open>[:max_results]\<close> drops the last remaining document only, and the tool returns
  one document, which is more than \<open>max_results\<close>.
\<close>

theorem similar_documents_negative_max_results:
  "fst (tool_search_similar_documents
          (test_env [Reply 200 (Some (example_similar 7)),
                     Reply 200 (Some (JObj [(''results'',
                       JList [example_similar 7, example_similar 8, example_similar 9])]))]) 7 (- 1) []) =
     Inr [(''success'', JBool True), (''reference_document_id'', JInt 7),
          (''similar_documents'', JList [example_similar 8]),
          (''similarity_criteria'',
           JObj [(''correspondent_id'', JInt 3), (''document_type'', JInt 2), (''tags'', JList [])])] \<and>
   \<not> int (length [example_similar 8]) \<le> - 1"
  by (simp add: handler_defs client_defs test_defs)

subsection \<open>Tag suggestion\<close>

lemma str_contains_iff_sublist: "str_contains s t \<longleftrightarrow> sublist t s"
proof (induction s)
  case Nil
  then show ?case by simp
next
  case (Cons c s)
  then show ?case by (simp add: sublist_Cons_right)
qed

lemma dict_set_new: "k \<notin> fst ` set d \<Longrightarrow> dict_set d k v = d @ [(k, v)]"
  by (induction d k v rule: dict_set.induct) auto

lemma is_tag_getitem:
  assumes "is_tag tag"
  shows "py_getitem tag ''name'' = Inr (JStr (tag_name_of tag))"
    and "py_getitem tag ''id'' = Inr (tag_id_of tag)"
    and "\<exists>i. tag_id_of tag = JInt i"
  using assms
  by (auto simp: is_tag_def tag_name_of_def tag_id_of_def split: sum.splits json.splits)

lemma build_tag_mapping_tags:
  assumes "list_all is_tag tags"
      and "distinct (map (\<lambda>tag. str_lower (tag_name_of tag)) tags)"
      and "\<forall>tag\<in>set tags. str_lower (tag_name_of tag) \<notin> fst ` set m"
  shows "build_tag_mapping tags m =
           Inr (m @ map (\<lambda>tag. (str_lower (tag_name_of tag), tag_id_of tag)) tags)"
  using assms
proof (induction tags arbitrary: m)
  case Nil
  then show ?case by simp
next
  case (Cons tag tags)
  from Cons.prems have tag: "is_tag tag" and rest: "list_all is_tag tags"
    and d: "distinct (map (\<lambda>tag. str_lower (tag_name_of tag)) tags)"
    and new: "str_lower (tag_name_of tag) \<notin> fst ` set m"
    and fresh: "str_lower (tag_name_of tag) \<notin> (\<lambda>tag. str_lower (tag_name_of tag)) ` set tags"
    and old: "\<forall>t\<in>set tags. str_lower (tag_name_of t) \<notin> fst ` set m"
    by auto
  have other: "\<forall>t\<in>set tags. str_lower (tag_name_of t) \<noteq> str_lower (tag_name_of tag)"
  proof
    fix t
    assume "t \<in> set tags"
    then have "(\<lambda>tag. str_lower (tag_name_of tag)) t \<in> (\<lambda>tag. str_lower (tag_name_of tag)) ` set tags"
      by (rule imageI)
    with fresh show "str_lower (tag_name_of t) \<noteq> str_lower (tag_name_of tag)"
      by (metis (no_types, lifting))
  qed
  let ?m = "m @ [(str_lower (tag_name_of tag), tag_id_of tag)]"
  from other old have "\<forall>t\<in>set tags. str_lower (tag_name_of t) \<notin> fst ` set ?m"
    by auto
  from Cons.IH[OF rest d this] is_tag_getitem(1,2)[OF tag] dict_set_new[OF new]
  show ?case by simp
qed

lemma suggest_loop_strings:
  "suggest_loop m (JStr title) (JStr content) acc =
     Inr (acc @ map snd (filter (\<lambda>(tag_name, tag_id).
            sublist tag_name (str_lower title) \<or> sublist tag_name (str_lower content)) m))"
proof (induction m arbitrary: acc)
  case Nil
  then show ?case by simp
next
  case (Cons item m)
  obtain tag_name tag_id where item: "item = (tag_name, tag_id)" by (cases item)
  show ?case
  proof (cases "sublist tag_name (str_lower title)")
    case True
    then show ?thesis by (simp add: item Cons.IH str_contains_iff_sublist)
  next
    case False
    then show ?thesis
      by (cases "sublist tag_name (str_lower content)")
         (simp_all add: item Cons.IH str_contains_iff_sublist)
  qed
qed

lemma suggest_tag_ids_tags:
  assumes "list_all is_tag tags"
      and "distinct (map (\<lambda>tag. str_lower (tag_name_of tag)) tags)"
  shows "suggest_tag_ids (JList tags) (JStr title) (JStr content) =
           Inr (map tag_id_of (filter (tag_matches title content) tags))"
proof -
  have "build_tag_mapping tags [] =
          Inr (map (\<lambda>tag. (str_lower (tag_name_of tag), tag_id_of tag)) tags)"
    using build_tag_mapping_tags[OF assms, of "[]"] by simp
  moreover have "tag_matches title content =
      (\<lambda>tag. sublist (str_lower (tag_name_of tag)) (str_lower title) \<or>
             sublist (str_lower (tag_name_of tag)) (str_lower content))"
    by (rule ext) (simp add: tag_matches_def)
  ultimately show ?thesis
    by (simp add: suggest_tag_ids_def bind_exc_def suggest_loop_strings filter_map comp_def)
qed

lemma suggested_names_loop_tags:
  assumes "list_all is_tag tags"
  shows "suggested_names_loop tags ids =
           Inr (map (\<lambda>tag. JStr (tag_name_of tag))
                  (filter (\<lambda>tag. list_contains ids (tag_id_of tag)) tags))"
  using assms
proof (induction tags)
  case Nil
  then show ?case by simp
next
  case (Cons tag tags)
  then have "is_tag tag" by simp
  from is_tag_getitem(1,2)[OF this] Cons show ?case by simp
qed

lemma list_contains_ids:
  assumes "list_all is_tag tags"
      and "distinct (map tag_id_of tags)"
      and "tag \<in> set tags"
  shows "list_contains (map tag_id_of (filter P tags)) (tag_id_of tag) \<longleftrightarrow> P tag"
proof
  assume "list_contains (map tag_id_of (filter P tags)) (tag_id_of tag)"
  then obtain t where t: "t \<in> set tags" "P t" "py_eq (tag_id_of t) (tag_id_of tag)"
    by (auto simp: list_contains_def list_ex_iff)
  from assms(1) t(1) assms(3) have "is_tag t" "is_tag tag"
    by (auto simp: list_all_iff)
  then obtain i j where "tag_id_of t = JInt i" "tag_id_of tag = JInt j"
    using is_tag_getitem(3) by blast
  with t(3) have "tag_id_of t = tag_id_of tag" by simp
  with assms(2) t(1) assms(3) have "t = tag"
    by (meson distinct_map inj_onD)
  with t(2) show "P tag" by simp
next
  assume "P tag"
  from assms(1,3) have "is_tag tag" by (auto simp: list_all_iff)
  then obtain j where "tag_id_of tag = JInt j" using is_tag_getitem(3) by blast
  then have "py_eq (tag_id_of tag) (tag_id_of tag)" by simp
  with \<open>P tag\<close> assms(3) show "list_contains (map tag_id_of (filter P tags)) (tag_id_of tag)"
    by (auto simp: list_contains_def list_ex_iff)
qed

lemma suggested_tag_names_tags:
  assumes "list_all is_tag tags"
      and "distinct (map tag_id_of tags)"
  shows "suggested_tag_names (JList tags) (map tag_id_of (filter P tags)) =
           Inr (map (\<lambda>tag. JStr (tag_name_of tag)) (filter P tags))"
proof -
  have "filter (\<lambda>tag. list_contains (map tag_id_of (filter P tags)) (tag_id_of tag)) tags =
        filter P tags"
    by (rule filter_cong[OF refl]) (rule list_contains_ids[OF assms])
  then show ?thesis
    by (simp add: suggested_tag_names_def bind_exc_def suggested_names_loop_tags[OF assms(1)])
qed


lemma build_tag_mapping_items:
  "build_tag_mapping tags m = Inr m' \<Longrightarrow>
     \<forall>tag\<in>set tags. (\<exists>name. py_getitem tag ''name'' = Inr name) \<and>
                     (\<exists>tag_id. py_getitem tag ''id'' = Inr tag_id)"
  by (induction tags arbitrary: m) (auto split: sum.splits)

lemma suggested_names_loop_total:
  "\<forall>tag\<in>set tags. (\<exists>name. py_getitem tag ''name'' = Inr name) \<and>
                   (\<exists>tag_id. py_getitem tag ''id'' = Inr tag_id) \<Longrightarrow>
     \<exists>names. suggested_names_loop tags ids = Inr names"
  by (induction tags) auto

lemma suggested_tag_names_total:
  assumes "suggest_tag_ids all_tags title content = Inr ids"
  shows "\<exists>names. suggested_tag_names all_tags ids' = Inr names"
proof -
  from assms obtain tags m where tags: "py_iter all_tags = Inr tags"
    and m: "build_tag_mapping tags [] = Inr m"
    by (auto simp: suggest_tag_ids_def bind_exc_def split: sum.splits)
  from suggested_names_loop_total[OF build_tag_mapping_items[OF m]] tags show ?thesis
    by (simp add: suggested_tag_names_def bind_exc_def)
qed

text \<open>The tool after its two fetches and the matching.\<close>

lemma tool_analyze_document_after_matching:
  assumes "fetch_paperless_document env document_id log = (Inr document, log1)"
      and "py_get document ''title'' (JStr []) = Inr document_title"
      and "py_get document ''content'' (JStr []) = Inr document_content"
      and "fetch_paperless_tags env log1 = (Inr all_tags, log2)"
      and "suggest_tag_ids all_tags document_title document_content = Inr ids"
      and "suggested_tag_names all_tags ids = Inr names"
  shows "tool_analyze_document env document_id update_automatically log =
     (case (if update_automatically \<and> ids \<noteq> []
            then apply_suggested_tags env document_id document ids log2
            else (Inr (), log2)) of
        (Inl e, log3) \<Rightarrow>
          (Inr [(''success'', JBool False), (''error'', JStr (exc_text env e)),
                (''document_id'', JInt document_id)], log3)
      | (Inr u, log3) \<Rightarrow>
          (Inr [(''success'', JBool True),
                (''document_id'', JInt document_id),
                (''document_title'', document_title),
                (''suggested_tags'', JList names),
                (''suggested_tag_ids'', JList ids),
                (''tags_updated'', JBool update_automatically),
                (''message'', JStr ''Document analyzed successfully'')], log3))"
  using assms
  by (simp add: tool_analyze_document_def tool_analyze_document_try_def bind_exc_def
        except_Exception_def split: prod.splits sum.splits)

text \<open>
  Claim C1, as amended: for a tag listing in which no two tags share an identifier or a
  case-folded name. When the document (with a string title and content) and the tags
  are fetched, the tool returns a dictionary; it is a success whenever
  \<open>update_automatically\<close> is not set; and a success lists, in the order of the tag
  listing, the names and the identifiers of exactly the tags whose case-folded name is a
  literal substring of the case-folded title or content: a known tag is among the
  suggested identifiers if and only if it matches.
\<close>

theorem tag_suggestion_is_substring_match:
  assumes "fetch_paperless_document env document_id log = (Inr document, log1)"
      and "py_get document ''title'' (JStr []) = Inr (JStr title)"
      and "py_get document ''content'' (JStr []) = Inr (JStr content)"
      and "fetch_paperless_tags env log1 = (Inr (JList tags), log2)"
      and "list_all is_tag tags"
      and "distinct (map tag_id_of tags)"
      and "distinct (map (\<lambda>tag. str_lower (tag_name_of tag)) tags)"
  shows "\<exists>r. fst (tool_analyze_document env document_id update_automatically log) = Inr r \<and>
           (\<not> update_automatically \<longrightarrow> map_of r ''success'' = Some (JBool True)) \<and>
           (map_of r ''success'' = Some (JBool True) \<longrightarrow>
              map_of r ''suggested_tags'' =
                Some (JList (map (\<lambda>tag. JStr (tag_name_of tag))
                               (filter (tag_matches title content) tags))) \<and>
              map_of r ''suggested_tag_ids'' =
                Some (JList (map tag_id_of (filter (tag_matches title content) tags))) \<and>
              (\<forall>tag\<in>set tags.
                 list_contains (map tag_id_of (filter (tag_matches title content) tags))
                   (tag_id_of tag) \<longleftrightarrow> tag_matches title content tag))"
proof -
  let ?ids = "map tag_id_of (filter (tag_matches title content) tags)"
  let ?names = "map (\<lambda>tag. JStr (tag_name_of tag)) (filter (tag_matches title content) tags)"
  have ids: "suggest_tag_ids (JList tags) (JStr title) (JStr content) = Inr ?ids"
    by (rule suggest_tag_ids_tags[OF assms(5,7)])
  have names: "suggested_tag_names (JList tags) ?ids = Inr ?names"
    by (rule suggested_tag_names_tags[OF assms(5,6)])
  note tool = tool_analyze_document_after_matching[OF assms(1-4) ids names,
      of update_automatically]
  have iff: "\<forall>tag\<in>set tags. list_contains ?ids (tag_id_of tag) \<longleftrightarrow> tag_matches title content tag"
    using list_contains_ids[OF assms(5,6)] by blast
  show ?thesis
  proof (cases "if update_automatically \<and> ?ids \<noteq> []
                then apply_suggested_tags env document_id document ?ids log2
                else (Inr (), log2)")
    case (Pair u log3)
    show ?thesis
    proof (cases u)
      case (Inl e)
      with Pair tool have "fst (tool_analyze_document env document_id update_automatically log) =
          Inr [(''success'', JBool False), (''error'', JStr (exc_text env e)),
               (''document_id'', JInt document_id)]"
        by simp
      moreover from Pair Inl have "update_automatically" by (auto split: if_splits)
      ultimately show ?thesis by simp
    next
      case (Inr v)
      with Pair tool have "fst (tool_analyze_document env document_id update_automatically log) =
          Inr [(''success'', JBool True),
                (''document_id'', JInt document_id),
                (''document_title'', JStr title),
                (''suggested_tags'', JList ?names),
                (''suggested_tag_ids'', JList ?ids),
                (''tags_updated'', JBool update_automatically),
                (''message'', JStr ''Document analyzed successfully'')]"
        by simp
      with iff show ?thesis by simp
    qed
  qed
qed


lemmas match_defs =
  tag_matches_def tag_name_of_def tag_id_of_def is_tag_def str_contains_iff_sublist[symmetric]

text \<open>
  The specification's example: the text "Invoice from Acme Corp" and the tags Invoice,
  ACME and receipt. Invoice and ACME are suggested, receipt is not.
\<close>

theorem tag_suggestion_is_substring_match_witness:
  "fetch_paperless_document
     (test_env [Reply 200 (Some example_invoice),
                Reply 200 (Some (JObj [(''results'',
                  JList [example_tag 1 ''Invoice'', example_tag 2 ''ACME'',
                         example_tag 3 ''receipt''])]))]) 7 [] =
     (Inr example_invoice, [http_get (PaperlessDocument 7) PaperlessHeaders []]) \<and>
   py_get example_invoice ''title'' (JStr []) = Inr (JStr ''Invoice from Acme Corp'') \<and>
   py_get example_invoice ''content'' (JStr []) = Inr (JStr ''Payable within 30 days'') \<and>
   fetch_paperless_tags
     (test_env [Reply 200 (Some example_invoice),
                Reply 200 (Some (JObj [(''results'',
                  JList [example_tag 1 ''Invoice'', example_tag 2 ''ACME'',
                         example_tag 3 ''receipt''])]))])
     [http_get (PaperlessDocument 7) PaperlessHeaders []] =
     (Inr (JList [example_tag 1 ''Invoice'', example_tag 2 ''ACME'', example_tag 3 ''receipt'']),
      [http_get (PaperlessDocument 7) PaperlessHeaders [],
       http_get PaperlessTags PaperlessHeaders []]) \<and>
   list_all is_tag [example_tag 1 ''Invoice'', example_tag 2 ''ACME'', example_tag 3 ''receipt''] \<and>
   distinct (map tag_id_of
     [example_tag 1 ''Invoice'', example_tag 2 ''ACME'', example_tag 3 ''receipt'']) \<and>
   distinct (map (\<lambda>tag. str_lower (tag_name_of tag))
     [example_tag 1 ''Invoice'', example_tag 2 ''ACME'', example_tag 3 ''receipt'']) \<and>
   fst (tool_analyze_document
     (test_env [Reply 200 (Some example_invoice),
                Reply 200 (Some (JObj [(''results'',
                  JList [example_tag 1 ''Invoice'', example_tag 2 ''ACME'',
                         example_tag 3 ''receipt''])]))]) 7 False []) =
     Inr [(''success'', JBool True),
          (''document_id'', JInt 7),
          (''document_title'', JStr ''Invoice from Acme Corp''),
          (''suggested_tags'', JList [JStr ''Invoice'', JStr ''ACME'']),
          (''suggested_tag_ids'', JList [JInt 1, JInt 2]),
          (''tags_updated'', JBool False),
          (''message'', JStr ''Document analyzed successfully'')] \<and>
   tag_matches ''Invoice from Acme Corp'' ''Payable within 30 days'' (example_tag 1 ''Invoice'') \<and>
   tag_matches ''Invoice from Acme Corp'' ''Payable within 30 days'' (example_tag 2 ''ACME'') \<and>
   \<not> tag_matches ''Invoice from Acme Corp'' ''Payable within 30 days'' (example_tag 3 ''receipt'')"
proof -
  let ?tags = "[example_tag 1 ''Invoice'', example_tag 2 ''ACME'', example_tag 3 ''receipt'']"
  let ?env = "test_env [Reply 200 (Some example_invoice),
                Reply 200 (Some (JObj [(''results'', JList ?tags)]))]"
  have doc: "fetch_paperless_document ?env 7 [] =
     (Inr example_invoice, [http_get (PaperlessDocument 7) PaperlessHeaders []])"
    by (simp add: client_defs test_env_def scripted_upstream_def)
  have title: "py_get example_invoice ''title'' (JStr []) = Inr (JStr ''Invoice from Acme Corp'')"
    and content: "py_get example_invoice ''content'' (JStr []) = Inr (JStr ''Payable within 30 days'')"
    by (simp_all add: example_invoice_def)
  have tags: "fetch_paperless_tags ?env [http_get (PaperlessDocument 7) PaperlessHeaders []] =
     (Inr (JList ?tags),
      [http_get (PaperlessDocument 7) PaperlessHeaders [],
       http_get PaperlessTags PaperlessHeaders []])"
    by (simp add: client_defs test_env_def scripted_upstream_def)
  have wf: "list_all is_tag ?tags"
    and ids: "distinct (map tag_id_of ?tags)"
    and names: "distinct (map (\<lambda>tag. str_lower (tag_name_of tag)) ?tags)"
    by (simp_all add: match_defs example_tag_def str_lower_def lower_char_def)
  have m: "tag_matches ''Invoice from Acme Corp'' ''Payable within 30 days'' (example_tag 1 ''Invoice'')"
    "tag_matches ''Invoice from Acme Corp'' ''Payable within 30 days'' (example_tag 2 ''ACME'')"
    "\<not> tag_matches ''Invoice from Acme Corp'' ''Payable within 30 days'' (example_tag 3 ''receipt'')"
    by (simp_all add: match_defs example_tag_def str_lower_def lower_char_def)
  have ex: "map tag_id_of ?tags = [JInt 1, JInt 2, JInt 3]"
    "map (\<lambda>tag. JStr (tag_name_of tag)) ?tags = [JStr ''Invoice'', JStr ''ACME'', JStr ''receipt'']"
    by (simp_all add: tag_id_of_def tag_name_of_def example_tag_def)
  from tag_suggestion_is_substring_match[OF doc title content tags wf ids names, of False]
  obtain r where r: "fst (tool_analyze_document ?env 7 False []) = Inr r"
    and s: "map_of r ''success'' = Some (JBool True)"
    and st: "map_of r ''suggested_tags'' =
                Some (JList (map (\<lambda>tag. JStr (tag_name_of tag))
                  (filter (tag_matches ''Invoice from Acme Corp'' ''Payable within 30 days'') ?tags)))"
    and si: "map_of r ''suggested_tag_ids'' =
                Some (JList (map tag_id_of
                  (filter (tag_matches ''Invoice from Acme Corp'' ''Payable within 30 days'') ?tags)))"
    by auto
  have tool: "fst (tool_analyze_document ?env 7 False []) =
     Inr [(''success'', JBool True),
          (''document_id'', JInt 7),
          (''document_title'', JStr ''Invoice from Acme Corp''),
          (''suggested_tags'', JList [JStr ''Invoice'', JStr ''ACME'']),
          (''suggested_tag_ids'', JList [JInt 1, JInt 2]),
          (''tags_updated'', JBool False),
          (''message'', JStr ''Document analyzed successfully'')]"
    by (simp add: handler_defs client_defs test_defs)
  from doc title content tags wf ids names tool m show ?thesis by blast
qed

text \<open>
  Claim C1 as stated fails when two tags share a case-folded name: the mapping from
  case-folded names to identifiers keeps one identifier per name, the last. With the tags
  1 "Invoice" and 2 "invoice", tag 1 matches the document and is not suggested.
\<close>

theorem tag_suggestion_name_collision:
  "fst (tool_analyze_document
     (test_env [Reply 200 (Some example_invoice),
                Reply 200 (Some (JObj [(''results'',
                  JList [example_tag 1 ''Invoice'', example_tag 2 ''invoice''])]))]) 7 False []) =
     Inr [(''success'', JBool True),
          (''document_id'', JInt 7),
          (''document_title'', JStr ''Invoice from Acme Corp''),
          (''suggested_tags'', JList [JStr ''invoice'']),
          (''suggested_tag_ids'', JList [JInt 2]),
          (''tags_updated'', JBool False),
          (''message'', JStr ''Document analyzed successfully'')] \<and>
   tag_matches ''Invoice from Acme Corp'' ''Payable within 30 days'' (example_tag 1 ''Invoice'') \<and>
   \<not> list_contains [JInt 2] (tag_id_of (example_tag 1 ''Invoice'')) \<and>
   \<not> list_contains [JStr ''invoice''] (JStr (tag_name_of (example_tag 1 ''Invoice'')))"
  by (simp add: handler_defs client_defs test_defs match_defs)

subsection \<open>The union of the existing and the suggested tags\<close>

lemma py_eq_refl_hashable: "py_hashable a \<Longrightarrow> py_eq a a"
  by (cases a) auto

lemma py_eq_sym_hashable: "py_hashable a \<Longrightarrow> py_eq a b \<Longrightarrow> py_eq b a"
  by (cases a; cases b) (auto split: if_splits)

lemma py_eq_trans_hashable: "py_hashable b \<Longrightarrow> py_eq a b \<Longrightarrow> py_eq b c \<Longrightarrow> py_eq a c"
  by (cases a; cases b; cases c) (auto split: if_splits)

lemma py_set_fold:
  assumes "list_all py_hashable xs" and "list_all py_hashable acc"
      and "distinct acc" and "\<forall>x\<in>set acc. \<forall>y\<in>set acc. py_eq x y \<longrightarrow> x = y"
  shows "list_all py_hashable (fold (\<lambda>x acc. py_set_add acc x) xs acc) \<and>
         distinct (fold (\<lambda>x acc. py_set_add acc x) xs acc) \<and>
         (\<forall>x\<in>set (fold (\<lambda>x acc. py_set_add acc x) xs acc).
            \<forall>y\<in>set (fold (\<lambda>x acc. py_set_add acc x) xs acc). py_eq x y \<longrightarrow> x = y) \<and>
         (\<forall>x. list_contains (fold (\<lambda>x acc. py_set_add acc x) xs acc) x \<longleftrightarrow>
               list_contains acc x \<or> list_contains xs x)"
  using assms
proof (induction xs arbitrary: acc)
  case Nil
  then show ?case by (simp add: list_contains_def)
next
  case (Cons a xs)
  from Cons.prems have ha: "py_hashable a" and hxs: "list_all py_hashable xs" by simp_all
  show ?case
  proof (cases "list_contains acc a")
    case True
    then obtain el where el: "el \<in> set acc" "py_eq el a"
      by (auto simp: list_contains_def list_ex_iff)
    have same: "list_contains acc x \<or> list_contains (a # xs) x \<longleftrightarrow>
                list_contains acc x \<or> list_contains xs x" for x
    proof -
      have "list_contains acc x" if "py_eq a x"
        using el that py_eq_trans_hashable[OF ha el(2) that]
        by (auto simp: list_contains_def list_ex_iff)
      then show ?thesis by (auto simp: list_contains_def)
    qed
    from True Cons.IH[OF hxs Cons.prems(2-4)] same show ?thesis
      by (simp add: py_set_add_def)
  next
    case False
    then have no: "\<forall>el\<in>set acc. \<not> py_eq el a"
      by (auto simp: list_contains_def list_ex_iff)
    have h: "list_all py_hashable (acc @ [a])" using Cons.prems(2) ha by simp
    have d: "distinct (acc @ [a])"
      using Cons.prems(3) no py_eq_refl_hashable[OF ha] by auto
    have u: "\<forall>x\<in>set (acc @ [a]). \<forall>y\<in>set (acc @ [a]). py_eq x y \<longrightarrow> x = y"
      using Cons.prems(4) no py_eq_sym_hashable[OF ha] by auto
    have same: "list_contains (acc @ [a]) x \<or> list_contains xs x \<longleftrightarrow>
                list_contains acc x \<or> list_contains (a # xs) x" for x
      by (auto simp: list_contains_def)
    from False Cons.IH[OF hxs h d u] same show ?thesis
      by (simp add: py_set_add_def)
  qed
qed

lemma py_set_elems:
  assumes "py_set xs = Inr elems"
  shows "distinct elems"
    and "\<forall>x\<in>set elems. \<forall>y\<in>set elems. py_eq x y \<longrightarrow> x = y"
    and "\<forall>x. list_contains elems x \<longleftrightarrow> list_contains xs x"
proof -
  from assms have h: "list_all py_hashable xs"
    and e: "elems = fold (\<lambda>x acc. py_set_add acc x) xs []"
    by (auto simp: py_set_def split: if_splits)
  from py_set_fold[OF h, of "[]"] e
  show "distinct elems"
    and "\<forall>x\<in>set elems. \<forall>y\<in>set elems. py_eq x y \<longrightarrow> x = y"
    and "\<forall>x. list_contains elems x \<longleftrightarrow> list_contains xs x"
    by (simp_all add: list_contains_def)
qed

lemma list_contains_set_cong: "set xs = set ys \<Longrightarrow> list_contains xs x = list_contains ys x"
  by (simp add: list_contains_def list_ex_iff)

lemma list_contains_append: "list_contains (xs @ ys) x \<longleftrightarrow> list_contains xs x \<or> list_contains ys x"
  by (auto simp: list_contains_def)

lemma apply_suggested_tags_log:
  "snd (apply_suggested_tags env document_id document ids log) =
     (case bind_exc (py_get document ''tags'' (JList [])) (\<lambda>current_tags.
             union_tags env current_tags ids) of
        Inl e \<Rightarrow> log
      | Inr new_tags \<Rightarrow>
          snd (update_paperless_document env document_id [(''tags'', JList new_tags)] log))"
  by (simp add: apply_suggested_tags_def split: sum.splits prod.splits)

lemma sent_since_append: "sent_since log (log @ reqs) = reqs"
  by (simp add: sent_since_def)

lemma update_paperless_document_sent:
  "sent_since log (snd (update_paperless_document env document_id update_data log)) =
     (case fst (fetch_paperless_document env document_id log) of
        Inr (JObj current_doc) \<Rightarrow>
          [http_get (PaperlessDocument document_id) PaperlessHeaders [],
           http_put (PaperlessDocument document_id) PaperlessHeaders
             (JObj (dict_merge current_doc update_data))]
      | _ \<Rightarrow> [http_get (PaperlessDocument document_id) PaperlessHeaders []])"
  unfolding update_paperless_document_log
  by (simp add: sent_since_def split: sum.splits json.splits)

lemma update_paperless_document_writes:
  "list_ex (\<lambda>req. req_method req = PUT)
     (sent_since log (snd (update_paperless_document env document_id update_data log))) \<longleftrightarrow>
   (\<exists>current_doc. fst (fetch_paperless_document env document_id log) = Inr (JObj current_doc))"
  unfolding update_paperless_document_sent
  by (auto simp: http_get_def http_put_def split: sum.splits json.splits)

lemma update_paperless_document_written:
  assumes "req \<in> set (sent_since log (snd (update_paperless_document env document_id [(k, v)] log)))"
      and "req_method req = PUT"
  shows "\<exists>written. req_json req = Some (JObj written) \<and> map_of written k = Some v"
  using assms unfolding update_paperless_document_sent
  by (auto simp: http_get_def http_put_def map_of_dict_merge_single split: sum.splits json.splits)

text \<open>
  Claim C7, as amended: when \<open>update_automatically\<close> is set and at least one tag is
  suggested. For a fetched document whose tags are a list of hashable values, the tool
  then runs the read-modify-write update with the tag list \<open>list(set(current_tags +
  suggested_tag_ids))\<close>: the requests it sends after the tag listing are those of that
  update. The list holds a value exactly if the existing tags or the suggested identifiers
  hold it, holds no two equal values, and stands in the order in which Python iterates
  the set; every write the tool sends carries it as the document's tags.
\<close>

theorem suggested_tags_are_merged_and_written:
  assumes "fetch_paperless_document env document_id log = (Inr document, log1)"
      and "py_get document ''title'' (JStr []) = Inr document_title"
      and "py_get document ''content'' (JStr []) = Inr document_content"
      and "fetch_paperless_tags env log1 = (Inr all_tags, log2)"
      and "suggest_tag_ids all_tags document_title document_content = Inr ids"
      and "ids \<noteq> []"
      and "py_get document ''tags'' (JList []) = Inr (JList current_tags)"
      and "py_set (current_tags @ ids) = Inr elems"
      and "distinct (set_order env elems)"
      and "set (set_order env elems) = set elems"
  shows "sent_since log2 (snd (tool_analyze_document env document_id True log)) =
           sent_since log2 (snd (update_paperless_document env document_id
                                   [(''tags'', JList (set_order env elems))] log2)) \<and>
         (\<forall>x. list_contains (set_order env elems) x \<longleftrightarrow>
               list_contains current_tags x \<or> list_contains ids x) \<and>
         (\<forall>x\<in>set (set_order env elems). \<forall>y\<in>set (set_order env elems). py_eq x y \<longrightarrow> x = y) \<and>
         (\<forall>req\<in>set (sent_since log2 (snd (tool_analyze_document env document_id True log))).
            req_method req = PUT \<longrightarrow>
              (\<exists>written. req_json req = Some (JObj written) \<and>
                          map_of written ''tags'' = Some (JList (set_order env elems))))"
proof -
  let ?new = "set_order env elems"
  from suggested_tag_names_total[OF assms(5)] obtain names where
    names: "suggested_tag_names all_tags ids = Inr names" by blast
  have union: "bind_exc (py_get document ''tags'' (JList [])) (\<lambda>current_tags.
                 union_tags env current_tags ids) = Inr ?new"
    using assms(7,8) by (simp add: bind_exc_def union_tags_def)
  have "snd (tool_analyze_document env document_id True log) =
        snd (apply_suggested_tags env document_id document ids log2)"
    using tool_analyze_document_after_matching[OF assms(1-5) names, of True] assms(6)
    by (simp split: prod.splits sum.splits)
  also have "\<dots> = snd (update_paperless_document env document_id [(''tags'', JList ?new)] log2)"
    by (simp add: apply_suggested_tags_log union)
  finally have log: "snd (tool_analyze_document env document_id True log) =
        snd (update_paperless_document env document_id [(''tags'', JList ?new)] log2)" .
  have mem: "list_contains ?new x \<longleftrightarrow> list_contains current_tags x \<or> list_contains ids x" for x
    using py_set_elems(3)[OF assms(8)] list_contains_set_cong[OF assms(10)]
    by (simp add: list_contains_append)
  have uniq: "\<forall>x\<in>set ?new. \<forall>y\<in>set ?new. py_eq x y \<longrightarrow> x = y"
    using py_set_elems(2)[OF assms(8)] assms(10) by simp
  have written: "\<exists>written. req_json req = Some (JObj written) \<and>
                          map_of written ''tags'' = Some (JList ?new)"
    if "req \<in> set (sent_since log2 (snd (tool_analyze_document env document_id True log)))"
      and "req_method req = PUT" for req
    using that unfolding log by (rule update_paperless_document_written)
  show ?thesis
  proof (intro conjI allI ballI impI)
    show "sent_since log2 (snd (tool_analyze_document env document_id True log)) =
           sent_since log2 (snd (update_paperless_document env document_id
                                   [(''tags'', JList ?new)] log2))"
      by (simp only: log)
  next
    fix x
    show "list_contains ?new x \<longleftrightarrow> list_contains current_tags x \<or> list_contains ids x"
      by (rule mem)
  next
    fix x y
    assume "x \<in> set ?new" "y \<in> set ?new" "py_eq x y"
    with uniq show "x = y" by blast
  next
    fix req
    assume "req \<in> set (sent_since log2 (snd (tool_analyze_document env document_id True log)))"
      and "req_method req = PUT"
    then show "\<exists>written. req_json req = Some (JObj written) \<and>
                          map_of written ''tags'' = Some (JList ?new)"
      by (rule written)
  qed
qed


lemma update_paperless_document_appends:
  "snd (update_paperless_document env document_id update_data log) =
     log @ sent_since log (snd (update_paperless_document env document_id update_data log))"
  unfolding update_paperless_document_sent
  by (simp add: update_paperless_document_log split: sum.splits json.splits)

lemma apply_suggested_tags_appends:
  "snd (apply_suggested_tags env document_id document ids log) =
     log @ sent_since log (snd (apply_suggested_tags env document_id document ids log))"
proof (cases "bind_exc (py_get document ''tags'' (JList [])) (\<lambda>current_tags.
                 union_tags env current_tags ids)")
  case (Inl e)
  then show ?thesis by (simp add: apply_suggested_tags_log sent_since_def)
next
  case (Inr new_tags)
  then show ?thesis
    using update_paperless_document_appends[of env document_id "[(''tags'', JList new_tags)]" log]
    by (simp add: apply_suggested_tags_log)
qed

lemma tool_analyze_document_log:
  assumes "fetch_paperless_document env document_id log = (Inr document, log1)"
      and "py_get document ''title'' (JStr []) = Inr document_title"
      and "py_get document ''content'' (JStr []) = Inr document_content"
      and "fetch_paperless_tags env log1 = (Inr all_tags, log2)"
      and "suggest_tag_ids all_tags document_title document_content = Inr ids"
  shows "snd (tool_analyze_document env document_id update_automatically log) =
           (if update_automatically \<and> ids \<noteq> []
            then snd (apply_suggested_tags env document_id document ids log2) else log2)"
proof -
  from suggested_tag_names_total[OF assms(5)] obtain names where
    names: "suggested_tag_names all_tags ids = Inr names" by blast
  show ?thesis
    using tool_analyze_document_after_matching[OF assms names, of update_automatically]
    by (simp split: prod.splits sum.splits)
qed

lemma two_fetches_log:
  assumes "fetch_paperless_document env document_id log = (r, log1)"
      and "fetch_paperless_tags env log1 = (r', log2)"
  shows "log2 = log @ [http_get (PaperlessDocument document_id) PaperlessHeaders [],
                       http_get PaperlessTags PaperlessHeaders []]"
  using assms fetch_paperless_document_log[of env document_id log]
    fetch_paperless_tags_log[of env log1]
  by simp

text \<open>
  Claim C10, as amended. After the document and the tags are fetched and the tags
  matched, the tool sends a write only if \<open>update_automatically\<close> is set and at least one
  tag is suggested. Otherwise it sends no further request, and returns the success
  dictionary whose \<open>tags_updated\<close> is the argument. When the two hold and the union of
  the tags is computed, the tool runs the read-modify-write update, and the write is sent
  exactly if the update's own fetch of the document succeeds. Every success dictionary
  has \<open>tags_updated\<close> equal to the argument.
\<close>

theorem analyze_update_guard:
  assumes "fetch_paperless_document env document_id log = (Inr document, log1)"
      and "py_get document ''title'' (JStr []) = Inr document_title"
      and "py_get document ''content'' (JStr []) = Inr document_content"
      and "fetch_paperless_tags env log1 = (Inr all_tags, log2)"
      and "suggest_tag_ids all_tags document_title document_content = Inr ids"
  shows "(list_ex (\<lambda>req. req_method req = PUT)
            (sent_since log (snd (tool_analyze_document env document_id update_automatically log))) \<longrightarrow>
            update_automatically \<and> ids \<noteq> []) \<and>
         (\<not> (update_automatically \<and> ids \<noteq> []) \<longrightarrow>
            snd (tool_analyze_document env document_id update_automatically log) = log2 \<and>
            (\<exists>names. fst (tool_analyze_document env document_id update_automatically log) =
               Inr [(''success'', JBool True),
                    (''document_id'', JInt document_id),
                    (''document_title'', document_title),
                    (''suggested_tags'', JList names),
                    (''suggested_tag_ids'', JList ids),
                    (''tags_updated'', JBool update_automatically),
                    (''message'', JStr ''Document analyzed successfully'')])) \<and>
         (\<forall>new_tags.
            update_automatically \<and> ids \<noteq> [] \<and>
            bind_exc (py_get document ''tags'' (JList []))
              (\<lambda>current_tags. union_tags env current_tags ids) = Inr new_tags \<longrightarrow>
              sent_since log2 (snd (tool_analyze_document env document_id update_automatically log)) =
                sent_since log2 (snd (update_paperless_document env document_id
                                        [(''tags'', JList new_tags)] log2)) \<and>
              (list_ex (\<lambda>req. req_method req = PUT)
                 (sent_since log (snd (tool_analyze_document env document_id update_automatically log))) \<longleftrightarrow>
               (\<exists>current_doc. fst (fetch_paperless_document env document_id log2) =
                                 Inr (JObj current_doc)))) \<and>
         (\<forall>r. fst (tool_analyze_document env document_id update_automatically log) = Inr r \<and>
              map_of r ''success'' = Some (JBool True) \<longrightarrow>
              map_of r ''tags_updated'' = Some (JBool update_automatically))"
proof -
  let ?tool = "tool_analyze_document env document_id update_automatically log"
  let ?get = "http_get (PaperlessDocument document_id) PaperlessHeaders []"
  let ?is_put = "\<lambda>req. req_method req = PUT"
  from suggested_tag_names_total[OF assms(5)] obtain names where
    names: "suggested_tag_names all_tags ids = Inr names" by blast
  note tool = tool_analyze_document_after_matching[OF assms names, of update_automatically]
  note log = tool_analyze_document_log[OF assms, of update_automatically]
  have log2: "log2 = log @ [?get, http_get PaperlessTags PaperlessHeaders []]"
    by (rule two_fetches_log[OF assms(1,4)])
  have since: "sent_since log (log2 @ reqs) =
      [?get, http_get PaperlessTags PaperlessHeaders []] @ reqs" for reqs
    by (simp add: log2 sent_since_def)
  have no_put: "list_ex ?is_put (sent_since log (log2 @ reqs)) \<longleftrightarrow> list_ex ?is_put reqs" for reqs
    unfolding since by (simp add: http_get_def)
  have a: "update_automatically \<and> ids \<noteq> []" if "list_ex ?is_put (sent_since log (snd ?tool))"
  proof (rule ccontr)
    assume "\<not> (update_automatically \<and> ids \<noteq> [])"
    with log have "snd ?tool = log2 @ []" by simp
    with that no_put[of "[]"] show False by simp
  qed
  have b: "snd ?tool = log2 \<and>
      (\<exists>names. fst ?tool =
               Inr [(''success'', JBool True),
                    (''document_id'', JInt document_id),
                    (''document_title'', document_title),
                    (''suggested_tags'', JList names),
                    (''suggested_tag_ids'', JList ids),
                    (''tags_updated'', JBool update_automatically),
                    (''message'', JStr ''Document analyzed successfully'')])"
    if "\<not> (update_automatically \<and> ids \<noteq> [])"
    using that tool by auto
  have c: "sent_since log2 (snd ?tool) =
             sent_since log2 (snd (update_paperless_document env document_id
                                     [(''tags'', JList new_tags)] log2)) \<and>
           (list_ex ?is_put (sent_since log (snd ?tool)) \<longleftrightarrow>
            (\<exists>current_doc. fst (fetch_paperless_document env document_id log2) =
                              Inr (JObj current_doc)))"
    if "update_automatically \<and> ids \<noteq> [] \<and>
        bind_exc (py_get document ''tags'' (JList []))
          (\<lambda>current_tags. union_tags env current_tags ids) = Inr new_tags" for new_tags
  proof -
    let ?update = "update_paperless_document env document_id [(''tags'', JList new_tags)] log2"
    from that log have eq: "snd ?tool = snd ?update"
      by (simp add: apply_suggested_tags_log)
    have "list_ex ?is_put (sent_since log (snd ?update)) \<longleftrightarrow>
          list_ex ?is_put (sent_since log2 (snd ?update))"
      using no_put[of "sent_since log2 (snd ?update)"]
        update_paperless_document_appends[of env document_id "[(''tags'', JList new_tags)]" log2]
      by simp
    with eq show ?thesis
      by (simp add: update_paperless_document_writes)
  qed
  have d: "map_of r ''tags_updated'' = Some (JBool update_automatically)"
    if "fst ?tool = Inr r \<and> map_of r ''success'' = Some (JBool True)" for r
    using that tool by (auto split: prod.splits sum.splits)
  from a b c d show ?thesis by blast
qed


text \<open>
  A document tagged 9, for which the tags 1 and 9 are suggested: the update writes the
  tags 1 and 9.
\<close>

theorem suggested_tags_are_merged_and_written_witness:
  "fetch_paperless_document
     (test_env [Reply 200 (Some example_invoice),
                Reply 200 (Some (JObj [(''results'',
                  JList [example_tag 1 ''Invoice'', example_tag 9 ''Payable'',
                         example_tag 3 ''receipt''])])),
                Reply 200 (Some example_invoice), Reply 200 (Some JNull)]) 7 [] =
     (Inr example_invoice, [http_get (PaperlessDocument 7) PaperlessHeaders []]) \<and>
   py_get example_invoice ''title'' (JStr []) = Inr (JStr ''Invoice from Acme Corp'') \<and>
   py_get example_invoice ''content'' (JStr []) = Inr (JStr ''Payable within 30 days'') \<and>
   fetch_paperless_tags
     (test_env [Reply 200 (Some example_invoice),
                Reply 200 (Some (JObj [(''results'',
                  JList [example_tag 1 ''Invoice'', example_tag 9 ''Payable'',
                         example_tag 3 ''receipt''])])),
                Reply 200 (Some example_invoice), Reply 200 (Some JNull)])
     [http_get (PaperlessDocument 7) PaperlessHeaders []] =
     (Inr (JList [example_tag 1 ''Invoice'', example_tag 9 ''Payable'', example_tag 3 ''receipt'']),
      [http_get (PaperlessDocument 7) PaperlessHeaders [],
       http_get PaperlessTags PaperlessHeaders []]) \<and>
   suggest_tag_ids
     (JList [example_tag 1 ''Invoice'', example_tag 9 ''Payable'', example_tag 3 ''receipt''])
     (JStr ''Invoice from Acme Corp'') (JStr ''Payable within 30 days'') = Inr [JInt 1, JInt 9] \<and>
   [JInt 1, JInt 9] \<noteq> [] \<and>
   py_get example_invoice ''tags'' (JList []) = Inr (JList [JInt 9]) \<and>
   py_set ([JInt 9] @ [JInt 1, JInt 9]) = Inr [JInt 9, JInt 1] \<and>
   set_order
     (test_env [Reply 200 (Some example_invoice),
                Reply 200 (Some (JObj [(''results'',
                  JList [example_tag 1 ''Invoice'', example_tag 9 ''Payable'',
                         example_tag 3 ''receipt''])])),
                Reply 200 (Some example_invoice), Reply 200 (Some JNull)])
     [JInt 9, JInt 1] = [JInt 1, JInt 9] \<and>
   sent_since [http_get (PaperlessDocument 7) PaperlessHeaders [],
               http_get PaperlessTags PaperlessHeaders []]
     (snd (tool_analyze_document
       (test_env [Reply 200 (Some example_invoice),
                  Reply 200 (Some (JObj [(''results'',
                    JList [example_tag 1 ''Invoice'', example_tag 9 ''Payable'',
                           example_tag 3 ''receipt''])])),
                  Reply 200 (Some example_invoice), Reply 200 (Some JNull)]) 7 True [])) =
     [http_get (PaperlessDocument 7) PaperlessHeaders [],
      http_put (PaperlessDocument 7) PaperlessHeaders
        (JObj [(''id'', JInt 7), (''title'', JStr ''Invoice from Acme Corp''),
               (''content'', JStr ''Payable within 30 days''),
               (''tags'', JList [JInt 1, JInt 9])])]"
proof -
  let ?tags = "[example_tag 1 ''Invoice'', example_tag 9 ''Payable'', example_tag 3 ''receipt'']"
  let ?env = "test_env [Reply 200 (Some example_invoice),
                Reply 200 (Some (JObj [(''results'', JList ?tags)])),
                Reply 200 (Some example_invoice), Reply 200 (Some JNull)]"
  let ?log2 = "[http_get (PaperlessDocument 7) PaperlessHeaders [],
               http_get PaperlessTags PaperlessHeaders []]"
  have doc: "fetch_paperless_document ?env 7 [] =
     (Inr example_invoice, [http_get (PaperlessDocument 7) PaperlessHeaders []])"
    by (simp add: client_defs test_env_def scripted_upstream_def)
  have title: "py_get example_invoice ''title'' (JStr []) = Inr (JStr ''Invoice from Acme Corp'')"
    and content: "py_get example_invoice ''content'' (JStr []) = Inr (JStr ''Payable within 30 days'')"
    and cur: "py_get example_invoice ''tags'' (JList []) = Inr (JList [JInt 9])"
    by (simp_all add: example_invoice_def)
  have tags: "fetch_paperless_tags ?env [http_get (PaperlessDocument 7) PaperlessHeaders []] =
     (Inr (JList ?tags), ?log2)"
    by (simp add: client_defs test_env_def scripted_upstream_def)
  have ids: "suggest_tag_ids (JList ?tags) (JStr ''Invoice from Acme Corp'')
      (JStr ''Payable within 30 days'') = Inr [JInt 1, JInt 9]"
    by (simp add: suggest_tag_ids_def bind_exc_def example_tag_def str_lower_def lower_char_def)
  have ne: "[JInt 1, JInt 9] \<noteq> ([] :: json list)" by simp
  have elems: "py_set ([JInt 9] @ [JInt 1, JInt 9]) = Inr [JInt 9, JInt 1]"
    by (simp add: py_set_def py_set_add_def list_contains_def)
  have order: "set_order ?env [JInt 9, JInt 1] = [JInt 1, JInt 9]"
    by (simp add: test_env_def)
  have d: "distinct (set_order ?env [JInt 9, JInt 1])"
    and e: "set (set_order ?env [JInt 9, JInt 1]) = set [JInt 9, JInt 1]"
    by (auto simp: test_env_def)
  have update: "sent_since ?log2
      (snd (update_paperless_document ?env 7 [(''tags'', JList [JInt 1, JInt 9])] ?log2)) =
     [http_get (PaperlessDocument 7) PaperlessHeaders [],
      http_put (PaperlessDocument 7) PaperlessHeaders
        (JObj [(''id'', JInt 7), (''title'', JStr ''Invoice from Acme Corp''),
               (''content'', JStr ''Payable within 30 days''),
               (''tags'', JList [JInt 1, JInt 9])])]"
    by (simp add: client_defs test_defs dict_merge_def)
  from suggested_tags_are_merged_and_written[OF doc title content tags ids ne cur elems d e]
  have "sent_since ?log2 (snd (tool_analyze_document ?env 7 True [])) =
        sent_since ?log2 (snd (update_paperless_document ?env 7
          [(''tags'', JList (set_order ?env [JInt 9, JInt 1]))] ?log2))"
    by blast
  with order update have "sent_since ?log2 (snd (tool_analyze_document ?env 7 True [])) =
     [http_get (PaperlessDocument 7) PaperlessHeaders [],
      http_put (PaperlessDocument 7) PaperlessHeaders
        (JObj [(''id'', JInt 7), (''title'', JStr ''Invoice from Acme Corp''),
               (''content'', JStr ''Payable within 30 days''),
               (''tags'', JList [JInt 1, JInt 9])])]"
    by simp
  with doc title content tags ids ne cur elems order show ?thesis by blast
qed

text \<open>
  Claim C7 as stated fails when no tag is suggested: with \<open>update_automatically\<close> set and
  no matching tag, the tool sends its two fetches and nothing else. The update is not
  run, and the existing tags are not written back.
\<close>

theorem no_suggestion_no_write:
  "tool_analyze_document
     (test_env [Reply 200 (Some example_invoice),
                Reply 200 (Some (JObj [(''results'', JList [example_tag 3 ''receipt''])]))])
     7 True [] =
     (Inr [(''success'', JBool True),
           (''document_id'', JInt 7),
           (''document_title'', JStr ''Invoice from Acme Corp''),
           (''suggested_tags'', JList []),
           (''suggested_tag_ids'', JList []),
           (''tags_updated'', JBool True),
           (''message'', JStr ''Document analyzed successfully'')],
      [http_get (PaperlessDocument 7) PaperlessHeaders [],
       http_get PaperlessTags PaperlessHeaders []])"
  by (simp add: handler_defs client_defs test_defs)


text \<open>
  One matching tag: without \<open>update_automatically\<close> only the two fetches are sent; with
  it, and an upstream that answers every call, a write is sent.
\<close>

theorem analyze_update_guard_witness:
  "fetch_paperless_document
     (test_env [Reply 200 (Some example_invoice),
                Reply 200 (Some (JObj [(''results'', JList [example_tag 1 ''Invoice''])])),
                Reply 200 (Some example_invoice), Reply 200 (Some JNull)]) 7 [] =
     (Inr example_invoice, [http_get (PaperlessDocument 7) PaperlessHeaders []]) \<and>
   py_get example_invoice ''title'' (JStr []) = Inr (JStr ''Invoice from Acme Corp'') \<and>
   py_get example_invoice ''content'' (JStr []) = Inr (JStr ''Payable within 30 days'') \<and>
   fetch_paperless_tags
     (test_env [Reply 200 (Some example_invoice),
                Reply 200 (Some (JObj [(''results'', JList [example_tag 1 ''Invoice''])])),
                Reply 200 (Some example_invoice), Reply 200 (Some JNull)])
     [http_get (PaperlessDocument 7) PaperlessHeaders []] =
     (Inr (JList [example_tag 1 ''Invoice'']),
      [http_get (PaperlessDocument 7) PaperlessHeaders [],
       http_get PaperlessTags PaperlessHeaders []]) \<and>
   suggest_tag_ids (JList [example_tag 1 ''Invoice''])
     (JStr ''Invoice from Acme Corp'') (JStr ''Payable within 30 days'') = Inr [JInt 1] \<and>
   snd (tool_analyze_document
     (test_env [Reply 200 (Some example_invoice),
                Reply 200 (Some (JObj [(''results'', JList [example_tag 1 ''Invoice''])])),
                Reply 200 (Some example_invoice), Reply 200 (Some JNull)]) 7 False []) =
     [http_get (PaperlessDocument 7) PaperlessHeaders [],
      http_get PaperlessTags PaperlessHeaders []] \<and>
   list_ex (\<lambda>req. req_method req = PUT)
     (sent_since []
       (snd (tool_analyze_document
         (test_env [Reply 200 (Some example_invoice),
                    Reply 200 (Some (JObj [(''results'', JList [example_tag 1 ''Invoice''])])),
                    Reply 200 (Some example_invoice), Reply 200 (Some JNull)]) 7 True []))) \<and>
   fst (tool_analyze_document
     (test_env [Reply 200 (Some example_invoice),
                Reply 200 (Some (JObj [(''results'', JList [example_tag 1 ''Invoice''])])),
                Reply 200 (Some example_invoice), Reply 200 (Some JNull)]) 7 True []) =
     Inr [(''success'', JBool True),
          (''document_id'', JInt 7),
          (''document_title'', JStr ''Invoice from Acme Corp''),
          (''suggested_tags'', JList [JStr ''Invoice'']),
          (''suggested_tag_ids'', JList [JInt 1]),
          (''tags_updated'', JBool True),
          (''message'', JStr ''Document analyzed successfully'')]"
proof -
  let ?tags = "[example_tag 1 ''Invoice'']"
  let ?env = "test_env [Reply 200 (Some example_invoice),
                Reply 200 (Some (JObj [(''results'', JList ?tags)])),
                Reply 200 (Some example_invoice), Reply 200 (Some JNull)]"
  let ?log2 = "[http_get (PaperlessDocument 7) PaperlessHeaders [],
               http_get PaperlessTags PaperlessHeaders []]"
  have doc: "fetch_paperless_document ?env 7 [] =
     (Inr example_invoice, [http_get (PaperlessDocument 7) PaperlessHeaders []])"
    by (simp add: client_defs test_env_def scripted_upstream_def)
  have title: "py_get example_invoice ''title'' (JStr []) = Inr (JStr ''Invoice from Acme Corp'')"
    and content: "py_get example_invoice ''content'' (JStr []) = Inr (JStr ''Payable within 30 days'')"
    by (simp_all add: example_invoice_def)
  have tags: "fetch_paperless_tags ?env [http_get (PaperlessDocument 7) PaperlessHeaders []] =
     (Inr (JList ?tags), ?log2)"
    by (simp add: client_defs test_env_def scripted_upstream_def)
  have ids: "suggest_tag_ids (JList ?tags) (JStr ''Invoice from Acme Corp'')
      (JStr ''Payable within 30 days'') = Inr [JInt 1]"
    by (simp add: suggest_tag_ids_def bind_exc_def example_tag_def str_lower_def lower_char_def)
  have quiet: "snd (tool_analyze_document ?env 7 False []) = ?log2"
    using analyze_update_guard[OF doc title content tags ids, of False] by simp
  have new: "bind_exc (py_get example_invoice ''tags'' (JList []))
      (\<lambda>current_tags. union_tags ?env current_tags [JInt 1]) = Inr [JInt 1, JInt 9]"
    by (simp add: bind_exc_def union_tags_def py_set_def py_set_add_def list_contains_def
          example_invoice_def test_env_def)
  have again: "fst (fetch_paperless_document ?env 7 ?log2) = Inr example_invoice"
    by (simp add: client_defs test_env_def scripted_upstream_def)
  have "\<exists>current_doc. fst (fetch_paperless_document ?env 7 ?log2) = Inr (JObj current_doc)"
    unfolding again by (simp add: example_invoice_def)
  with analyze_update_guard[OF doc title content tags ids, of True] new
  have put: "list_ex (\<lambda>req. req_method req = PUT)
      (sent_since [] (snd (tool_analyze_document ?env 7 True [])))"
    by simp
  have result: "fst (tool_analyze_document ?env 7 True []) =
     Inr [(''success'', JBool True),
          (''document_id'', JInt 7),
          (''document_title'', JStr ''Invoice from Acme Corp''),
          (''suggested_tags'', JList [JStr ''Invoice'']),
          (''suggested_tag_ids'', JList [JInt 1]),
          (''tags_updated'', JBool True),
          (''message'', JStr ''Document analyzed successfully'')]"
    by (simp add: handler_defs client_defs test_defs)
  from doc title content tags ids quiet put result show ?thesis by blast
qed

text \<open>
  Claim C10 as stated fails in one direction: with \<open>update_automatically\<close> set and a tag
  suggested, the update's own fetch can fail, and then no write is sent.
\<close>

theorem suggestion_without_write:
  "suggest_tag_ids (JList [example_tag 1 ''Invoice''])
     (JStr ''Invoice from Acme Corp'') (JStr ''Payable within 30 days'') = Inr [JInt 1] \<and>
   tool_analyze_document
     (test_env [Reply 200 (Some example_invoice),
                Reply 200 (Some (JObj [(''results'', JList [example_tag 1 ''Invoice''])])),
                NoReply ''Connection timed out'']) 7 True [] =
     (Inr [(''success'', JBool False),
           (''error'', JStr ''Error fetching document: Connection timed out''),
           (''document_id'', JInt 7)],
      [http_get (PaperlessDocument 7) PaperlessHeaders [],
       http_get PaperlessTags PaperlessHeaders [],
       http_get (PaperlessDocument 7) PaperlessHeaders []]) \<and>
   \<not> list_ex (\<lambda>req. req_method req = PUT)
       [http_get (PaperlessDocument 7) PaperlessHeaders [],
        http_get PaperlessTags PaperlessHeaders [],
        http_get (PaperlessDocument 7) PaperlessHeaders []]"
  by (simp add: handler_defs client_defs test_defs)

subsection \<open>The registry\<close>

lemma deliver_result: "fst outcome = Inr r \<Longrightarrow> fst (deliver outcome) = Inr r"
  by (cases outcome) (simp add: deliver_def)

lemma resource_returns:
  "\<exists>r. fst (get_documents env q t c d ca cb limit log) = Inr r"
  "\<exists>r. fst (get_document env document_id log) = Inr r"
  "\<exists>r. fst (get_tags env log) = Inr r"
  "\<exists>r. fst (get_correspondents env log) = Inr r"
  "\<exists>r. fst (get_document_types env log) = Inr r"
  "\<exists>r. fst (get_workflows env log) = Inr r"
  by (simp_all add: get_documents_def get_document_def get_tags_def get_correspondents_def
        get_document_types_def get_workflows_def split_beta except_Exception_cases)

lemma call_resource_returns: "\<exists>r. fst (call_resource env name params log) = Inr r"
  unfolding call_resource_def using resource_returns by (simp del: ex_simps)

lemma tool_returns:
  "\<exists>r. fst (tool_trigger_workflow env w document_id a log) = Inr r \<and>
        (map_of r ''success'' = Some (JBool True) \<or>
         map_of r ''success'' = Some (JBool False) \<and>
         (\<exists>e. map_of r ''error'' = Some (JStr (exc_text env e))))"
  "\<exists>r. fst (tool_update_document_tags env document_id add_tags remove_tags log) = Inr r \<and>
        (map_of r ''success'' = Some (JBool True) \<or>
         map_of r ''success'' = Some (JBool False) \<and>
         (\<exists>e. map_of r ''error'' = Some (JStr (exc_text env e))))"
  "\<exists>r. fst (tool_analyze_document env document_id u log) = Inr r \<and>
        (map_of r ''success'' = Some (JBool True) \<or>
         map_of r ''success'' = Some (JBool False) \<and>
         (\<exists>e. map_of r ''error'' = Some (JStr (exc_text env e))))"
  "\<exists>r. fst (tool_search_similar_documents env document_id max_results log) = Inr r \<and>
        (map_of r ''success'' = Some (JBool True) \<or>
         map_of r ''success'' = Some (JBool False) \<and>
         (\<exists>e. map_of r ''error'' = Some (JStr (exc_text env e))))"
  using tool_result_cases[where msg_of = "exc_text env", OF tool_trigger_workflow_try_success]
    tool_result_cases[where msg_of = "exc_text env", OF tool_update_document_tags_try_success]
    tool_result_cases[where msg_of = "exc_text env", OF tool_analyze_document_try_success]
    tool_result_cases[where msg_of = "exc_text env", OF tool_search_similar_documents_try_success]
  by (simp_all add: tool_trigger_workflow_def tool_update_document_tags_def
        tool_analyze_document_def tool_search_similar_documents_def split_beta)

lemma call_tool_returns:
  "\<exists>r. fst (call_tool env name params log) = Inr r \<and>
        (map_of r ''success'' = Some (JBool True) \<or>
         map_of r ''success'' = Some (JBool False) \<and>
         (\<exists>e. map_of r ''error'' = Some (JStr (exc_text env e))))"
  unfolding call_tool_def using tool_returns by (simp del: ex_simps)

text \<open>
  Claim C8, as amended, on the registry as the specification describes it. An unknown
  resource or tool name fails with \<open>NotFoundError\<close>, and nothing is sent. A known name
  with valid parameters returns the dictionary of its handler: for a tool, one that
  reports success or one that reports failure with the text of the error.
\<close>

theorem registry_invocation:
  "(map_of resource_registry name = None \<longrightarrow>
      invoke_resource env name params log = (Inl (NotFoundError name), log)) \<and>
   (map_of tool_registry name = None \<longrightarrow>
      invoke_tool env name params log = (Inl (NotFoundError name), log)) \<and>
   (\<forall>schema. map_of resource_registry name = Some schema \<and> valid_params schema params \<longrightarrow>
      (\<exists>r. fst (invoke_resource env name params log) = Inr r \<and>
           fst (call_resource env name params log) = Inr r)) \<and>
   (\<forall>schema. map_of tool_registry name = Some schema \<and> valid_params schema params \<longrightarrow>
      (\<exists>r. fst (invoke_tool env name params log) = Inr r \<and>
           fst (call_tool env name params log) = Inr r \<and>
           (map_of r ''success'' = Some (JBool True) \<or>
            map_of r ''success'' = Some (JBool False) \<and>
            (\<exists>e. map_of r ''error'' = Some (JStr (exc_text env e))))))"
proof (intro conjI impI allI)
  assume "map_of resource_registry name = None"
  then show "invoke_resource env name params log = (Inl (NotFoundError name), log)"
    by (simp add: invoke_resource_def)
next
  assume "map_of tool_registry name = None"
  then show "invoke_tool env name params log = (Inl (NotFoundError name), log)"
    by (simp add: invoke_tool_def)
next
  fix schema
  assume a: "map_of resource_registry name = Some schema \<and> valid_params schema params"
  from call_resource_returns obtain r where r: "fst (call_resource env name params log) = Inr r"
    by blast
  from a deliver_result[OF r] have "fst (invoke_resource env name params log) = Inr r"
    by (simp add: invoke_resource_def)
  with r show "\<exists>r. fst (invoke_resource env name params log) = Inr r \<and>
           fst (call_resource env name params log) = Inr r"
    by blast
next
  fix schema
  assume a: "map_of tool_registry name = Some schema \<and> valid_params schema params"
  from call_tool_returns obtain r where r: "fst (call_tool env name params log) = Inr r"
    and s: "map_of r ''success'' = Some (JBool True) \<or>
            map_of r ''success'' = Some (JBool False) \<and>
            (\<exists>e. map_of r ''error'' = Some (JStr (exc_text env e)))"
    by blast
  from a deliver_result[OF r] have "fst (invoke_tool env name params log) = Inr r"
    by (simp add: invoke_tool_def)
  with r s show "\<exists>r. fst (invoke_tool env name params log) = Inr r \<and>
           fst (call_tool env name params log) = Inr r \<and>
           (map_of r ''success'' = Some (JBool True) \<or>
            map_of r ''success'' = Some (JBool False) \<and>
            (\<exists>e. map_of r ''error'' = Some (JStr (exc_text env e))))"
    by blast
qed


lemmas registry_defs =
  invoke_resource_def invoke_tool_def resource_registry_def tool_registry_def valid_params_def
  deliver_def call_resource_def call_tool_def any_param_def int_param_def str_param_def
  bool_param_def int_list_param_def dict_param_def

text \<open>
  Two unknown names, and two known names against an upstream that answers.
\<close>

theorem registry_invocation_witness:
  "map_of resource_registry ''invoices'' = None \<and>
   invoke_resource (test_env []) ''invoices'' [] [] = (Inl (NotFoundError ''invoices''), []) \<and>
   map_of tool_registry ''delete_document'' = None \<and>
   invoke_tool (test_env []) ''delete_document'' [(''document_id'', JInt 7)] [] =
     (Inl (NotFoundError ''delete_document''), []) \<and>
   map_of resource_registry ''tags'' = Some [] \<and>
   valid_params [] [] \<and>
   fst (invoke_resource (test_env [Reply 200 (Some (JObj [(''results'', JList [])]))]) ''tags'' [] []) =
     Inr [(''tags'', JList [])] \<and>
   map_of tool_registry ''analyze_document'' =
     Some [(''document_id'', True, IntParam), (''update_automatically'', False, BoolParam)] \<and>
   valid_params [(''document_id'', True, IntParam), (''update_automatically'', False, BoolParam)]
     [(''document_id'', JInt 7)] \<and>
   fst (invoke_tool
     (test_env [Reply 200 (Some example_invoice),
                Reply 200 (Some (JObj [(''results'', JList [example_tag 1 ''Invoice''])]))])
     ''analyze_document'' [(''document_id'', JInt 7)] []) =
     Inr [(''success'', JBool True),
          (''document_id'', JInt 7),
          (''document_title'', JStr ''Invoice from Acme Corp''),
          (''suggested_tags'', JList [JStr ''Invoice'']),
          (''suggested_tag_ids'', JList [JInt 1]),
          (''tags_updated'', JBool False),
          (''message'', JStr ''Document analyzed successfully'')]"
proof -
  let ?up = "test_env [Reply 200 (Some (JObj [(''results'', JList [])]))]"
  let ?env = "test_env [Reply 200 (Some example_invoice),
                Reply 200 (Some (JObj [(''results'', JList [example_tag 1 ''Invoice''])]))]"
  have unknown: "map_of resource_registry ''invoices'' = None"
    "map_of tool_registry ''delete_document'' = None"
    by (simp_all add: resource_registry_def tool_registry_def)
  have known: "map_of resource_registry ''tags'' = Some []"
    "map_of tool_registry ''analyze_document'' =
       Some [(''document_id'', True, IntParam), (''update_automatically'', False, BoolParam)]"
    by (simp_all add: resource_registry_def tool_registry_def)
  have valid: "valid_params [] []"
    "valid_params [(''document_id'', True, IntParam), (''update_automatically'', False, BoolParam)]
       [(''document_id'', JInt 7)]"
    by (simp_all add: valid_params_def)
  note a = registry_invocation[of "''invoices''" "test_env []" "[]" "[]"]
  note b = registry_invocation[of "''delete_document''" "test_env []" "[(''document_id'', JInt 7)]" "[]"]
  from a unknown(1) have r1: "invoke_resource (test_env []) ''invoices'' [] [] =
      (Inl (NotFoundError ''invoices''), [])" by blast
  from b unknown(2) have r2: "invoke_tool (test_env []) ''delete_document'' [(''document_id'', JInt 7)] [] =
      (Inl (NotFoundError ''delete_document''), [])" by blast
  have c1: "fst (call_resource ?up ''tags'' [] []) = Inr [(''tags'', JList [])]"
    by (simp add: call_resource_def handler_defs client_defs test_defs)
  have c2: "fst (call_tool ?env ''analyze_document'' [(''document_id'', JInt 7)] []) =
     Inr [(''success'', JBool True),
          (''document_id'', JInt 7),
          (''document_title'', JStr ''Invoice from Acme Corp''),
          (''suggested_tags'', JList [JStr ''Invoice'']),
          (''suggested_tag_ids'', JList [JInt 1]),
          (''tags_updated'', JBool False),
          (''message'', JStr ''Document analyzed successfully'')]"
    by (simp add: call_tool_def int_param_def bool_param_def handler_defs client_defs test_defs)
  from registry_invocation[of "''tags''" ?up "[]" "[]"] known(1) valid(1) c1
  have r3: "fst (invoke_resource ?up ''tags'' [] []) = Inr [(''tags'', JList [])]"
    by auto
  from registry_invocation[of "''analyze_document''" ?env "[(''document_id'', JInt 7)]" "[]"]
    known(2) valid(2) c2
  have r4: "fst (invoke_tool ?env ''analyze_document'' [(''document_id'', JInt 7)] []) =
     Inr [(''success'', JBool True),
          (''document_id'', JInt 7),
          (''document_title'', JStr ''Invoice from Acme Corp''),
          (''suggested_tags'', JList [JStr ''Invoice'']),
          (''suggested_tag_ids'', JList [JInt 1]),
          (''tags_updated'', JBool False),
          (''message'', JStr ''Document analyzed successfully'')]"
    by auto
  from unknown known valid r1 r2 r3 r4 show ?thesis by blast
qed

text \<open>
  Claim C8 as stated fails in its second half: a known name with valid parameters returns
  a failure result, not a success result, when the upstream call of its handler fails.
\<close>

theorem known_name_failure_result:
  "map_of tool_registry ''update_document_tags'' =
     Some [(''document_id'', True, IntParam), (''add_tags'', False, IntListParam),
           (''remove_tags'', False, IntListParam)] \<and>
   valid_params [(''document_id'', True, IntParam), (''add_tags'', False, IntListParam),
                 (''remove_tags'', False, IntListParam)]
     [(''document_id'', JInt 7), (''add_tags'', JList [JInt 3])] \<and>
   invoke_tool (test_env [NoReply ''Connection timed out'']) ''update_document_tags''
     [(''document_id'', JInt 7), (''add_tags'', JList [JInt 3])] [] =
     (Inr [(''success'', JBool False),
           (''error'', JStr ''Error fetching document: Connection timed out''),
           (''document_id'', JInt 7)],
      [http_get (PaperlessDocument 7) PaperlessHeaders []]) \<and>
   map_of resource_registry ''tags'' = Some [] \<and>
   valid_params [] [] \<and>
   invoke_resource (test_env [NoReply ''Connection timed out'']) ''tags'' [] [] =
     (Inr [(''error'', JStr ''Error fetching tags: Connection timed out''), (''tags'', JList [])],
      [http_get PaperlessTags PaperlessHeaders []])"
  by (simp add: registry_defs handler_defs client_defs test_defs)

end
